theory Spec2Isabelle
  imports Complex_Main
begin

section \<open>Values of the program\<close>

text \<open>
  A JavaScript \<open>number\<close> is modelled as a rational (floating-point rounding is not
  modelled), a \<open>Date\<close> as the number of milliseconds it holds, and a \<open>string\<close> as a
  HOL string.  Every \<open>new Date()\<close> the code evaluates reads the clock; a function of the
  model that reads the clock takes \<open>now :: nat \<Rightarrow> date\<close>, where \<open>now k\<close> is the value of
  the \<open>k\<close>-th \<open>new Date()\<close> it evaluates (counted from 0, in evaluation order).  Nothing
  is assumed about the clock.
\<close>

type_synonym number = rat
type_synonym date = nat
type_synonym clock = "nat \<Rightarrow> date"

definition later :: "nat \<Rightarrow> clock \<Rightarrow> clock" where
  "later n now = (\<lambda>k. now (k + n))"

subsection \<open>The in-memory stores: \<open>Map<string, T>\<close>\<close>

text \<open>
  A JavaScript \<open>Map\<close> keeps its entries in insertion order; \<open>set\<close> on a key that is
  present replaces the value where it stands, \<open>set\<close> on a new key appends, \<open>delete\<close>
  reports whether the key was present.  The model is the list of entries in that order.
\<close>

type_synonym 'v store = "(string \<times> 'v) list"

definition Map_get :: "string \<Rightarrow> 'v store \<Rightarrow> 'v option" where
  "Map_get k m = map_of m k"

fun Map_set :: "string \<Rightarrow> 'v \<Rightarrow> 'v store \<Rightarrow> 'v store" where
  "Map_set k v [] = [(k, v)]"
| "Map_set k v (e # m) = (if fst e = k then (k, v) # m else e # Map_set k v m)"

definition Map_has :: "string \<Rightarrow> 'v store \<Rightarrow> bool" where
  "Map_has k m = (k \<in> set (map fst m))"

definition Map_delete :: "string \<Rightarrow> 'v store \<Rightarrow> 'v store \<times> bool" where
  "Map_delete k m = (filter (\<lambda>e. fst e \<noteq> k) m, Map_has k m)"

definition Map_values :: "'v store \<Rightarrow> 'v list" where
  "Map_values m = map snd m"

text \<open>\<open>Array.prototype.find\<close> and \<open>findIndex\<close> (\<open>None\<close> for \<open>undefined\<close> and for \<open>-1\<close>).\<close>

fun findIndex :: "('a \<Rightarrow> bool) \<Rightarrow> 'a list \<Rightarrow> nat option" where
  "findIndex P [] = None"
| "findIndex P (x # xs) =
     (if P x then Some 0 else map_option Suc (findIndex P xs))"

text \<open>
  Object spread \<open>{...old, ...updates}\<close>, one field at a time: a key the update object
  carries replaces the old value, a key it lacks leaves it.
\<close>

definition spread :: "'a \<Rightarrow> 'a option \<Rightarrow> 'a" where
  "spread old new = (case new of None \<Rightarrow> old | Some v \<Rightarrow> v)"

subsection \<open>Responses\<close>

text \<open>
  \<open>sendSuccess\<close> answers with Express's default status 200 and the data;
  \<open>sendError\<close> answers with the status code and message it is given
  (\<open>sendNotFound\<close> is \<open>sendError 404\<close>, \<open>sendForbidden\<close> is \<open>sendError 403\<close>,
  \<open>sendBadRequest\<close> is \<open>sendError 400\<close>).
\<close>

datatype 'a response = sendSuccess 'a string | sendError nat string

fun statusCode :: "'a response \<Rightarrow> nat" where
  "statusCode (sendSuccess d msg) = 200"
| "statusCode (sendError code msg) = code"

fun success :: "'a response \<Rightarrow> bool" where
  "success (sendSuccess d msg) = True"
| "success (sendError code msg) = False"

definition sendNotFound :: "string \<Rightarrow> 'a response" where
  "sendNotFound resource = sendError 404 (resource @ '' not found'')"

definition sendForbidden :: "string \<Rightarrow> 'a response" where
  "sendForbidden msg = sendError 403 msg"

definition sendUnauthorized :: "string \<Rightarrow> 'a response" where
  "sendUnauthorized msg = sendError 401 msg"

definition sendBadRequest :: "string \<Rightarrow> 'a response" where
  "sendBadRequest msg = sendError 400 msg"

section \<open>Data model\<close>

datatype UserRole = STUDENT | INSTRUCTOR | ADMIN

text \<open>The identity \<open>req.user\<close> that \<open>authenticate\<close> takes from the access token.\<close>

record AuthUser =
  userId :: string
  auth_email :: string
  role :: UserRole

record UserPreferences =
  notifications_email :: bool
  notifications_push :: bool
  notifications_courseUpdates :: bool
  notifications_marketing :: bool
  privacy_profileVisibility :: string
  privacy_showProgress :: bool
  learning_difficulty :: string
  learning_pace :: string
  learning_reminderTime :: "string option"

text \<open>
  \<open>CourseProgress\<close>.  The progress endpoint writes request-body values that may be
  \<open>undefined\<close> into \<open>completedModules\<close>, \<open>currentModule\<close> and \<open>progressPercentage\<close>,
  so these fields hold an option (\<open>None\<close> is \<open>undefined\<close>).
\<close>

record CourseProgress =
  cp_courseId :: string
  cp_enrolledAt :: date
  cp_completedModules :: "string list option"
  cp_currentModule :: "string option"
  cp_progressPercentage :: "number option"
  cp_lastAccessedAt :: date
  cp_certificateEarned :: "bool option"
  cp_certificateUrl :: "string option"

text \<open>\<open>Partial<CourseProgress>\<close>: \<open>None\<close> when the object has no such key.\<close>

record PartialCourseProgress =
  pp_courseId :: "string option"
  pp_enrolledAt :: "date option"
  pp_completedModules :: "string list option option"
  pp_currentModule :: "string option option"
  pp_progressPercentage :: "number option option"
  pp_lastAccessedAt :: "date option"
  pp_certificateEarned :: "bool option option"
  pp_certificateUrl :: "string option option"

definition spread_CourseProgress :: "CourseProgress \<Rightarrow> PartialCourseProgress \<Rightarrow> CourseProgress" where
  "spread_CourseProgress p u =
     \<lparr> cp_courseId = spread (cp_courseId p) (pp_courseId u),
       cp_enrolledAt = spread (cp_enrolledAt p) (pp_enrolledAt u),
       cp_completedModules = spread (cp_completedModules p) (pp_completedModules u),
       cp_currentModule = spread (cp_currentModule p) (pp_currentModule u),
       cp_progressPercentage = spread (cp_progressPercentage p) (pp_progressPercentage u),
       cp_lastAccessedAt = spread (cp_lastAccessedAt p) (pp_lastAccessedAt u),
       cp_certificateEarned = spread (cp_certificateEarned p) (pp_certificateEarned u),
       cp_certificateUrl = spread (cp_certificateUrl p) (pp_certificateUrl u) \<rparr>"

record User =
  user_id :: string
  user_email :: string
  user_password :: string
  user_firstName :: string
  user_lastName :: string
  user_role :: UserRole
  user_avatar :: "string option"
  user_bio :: "string option"
  user_skills :: "string list"
  user_preferences :: UserPreferences
  user_progress :: "CourseProgress list"
  user_createdAt :: date
  user_updatedAt :: date

section \<open>\<open>UserModel\<close>\<close>

text \<open>\<open>Omit<User, 'id' | 'createdAt' | 'updatedAt'>\<close>, the argument of \<open>UserModel.create\<close>.\<close>

record UserData =
  ud_email :: string
  ud_password :: string
  ud_firstName :: string
  ud_lastName :: string
  ud_role :: UserRole
  ud_avatar :: "string option"
  ud_bio :: "string option"
  ud_skills :: "string list"
  ud_preferences :: UserPreferences
  ud_progress :: "CourseProgress list"

text \<open>
  \<open>UserModel.create\<close>.  The id is \<open>user_<Date.now()>_<random>\<close>; the model takes the
  generated id as an argument and assumes nothing about it (it may collide with a key
  of the store, and then \<open>users.set\<close> replaces that entry).
\<close>

definition UserModel_create :: "string \<Rightarrow> clock \<Rightarrow> UserData \<Rightarrow> User store \<Rightarrow> User \<times> User store" where
  "UserModel_create newId now userData users =
     (let user = \<lparr> user_id = newId,
                   user_email = ud_email userData,
                   user_password = ud_password userData,
                   user_firstName = ud_firstName userData,
                   user_lastName = ud_lastName userData,
                   user_role = ud_role userData,
                   user_avatar = ud_avatar userData,
                   user_bio = ud_bio userData,
                   user_skills = ud_skills userData,
                   user_preferences = ud_preferences userData,
                   user_progress = ud_progress userData,
                   user_createdAt = now 0,
                   user_updatedAt = now 0 \<rparr>
      in (user, Map_set newId user users))"

definition UserModel_findById :: "string \<Rightarrow> User store \<Rightarrow> User option" where
  "UserModel_findById ident users = Map_get ident users"

definition UserModel_findByEmail :: "string \<Rightarrow> User store \<Rightarrow> User option" where
  "UserModel_findByEmail email users = find (\<lambda>user. user_email user = email) (Map_values users)"

definition UserModel_delete :: "string \<Rightarrow> User store \<Rightarrow> User store \<times> bool" where
  "UserModel_delete ident users = Map_delete ident users"

text \<open>
  \<open>UserModel.updateProgress\<close>.  With a record for the course present it is overwritten
  by the spread of the old record and \<open>progress\<close>, and the clock is read once (for
  \<open>updatedAt\<close>); otherwise a new record is pushed, whose defaults read the clock twice
  before \<open>updatedAt\<close> reads it a third time.
\<close>

definition UserModel_updateProgress ::
  "clock \<Rightarrow> string \<Rightarrow> string \<Rightarrow> PartialCourseProgress \<Rightarrow> User store \<Rightarrow> User store \<times> bool" where
  "UserModel_updateProgress now uid courseId progress users =
     (case Map_get uid users of
        None \<Rightarrow> (users, False)
      | Some user \<Rightarrow>
          (case findIndex (\<lambda>p. cp_courseId p = courseId) (user_progress user) of
             Some existingProgressIndex \<Rightarrow>
               (Map_set uid
                  (user\<lparr> user_progress :=
                           (user_progress user)[existingProgressIndex :=
                              spread_CourseProgress (user_progress user ! existingProgressIndex) progress],
                         user_updatedAt := now 0 \<rparr>) users, True)
           | None \<Rightarrow>
               (Map_set uid
                  (user\<lparr> user_progress := user_progress user @
                           [spread_CourseProgress
                              \<lparr> cp_courseId = courseId,
                                cp_enrolledAt = now 0,
                                cp_completedModules = Some [],
                                cp_currentModule = None,
                                cp_progressPercentage = Some 0,
                                cp_lastAccessedAt = now 1,
                                cp_certificateEarned = None,
                                cp_certificateUrl = None \<rparr> progress],
                         user_updatedAt := now 2 \<rparr>) users, True)))"

text \<open>The number of clock readings a call of \<open>UserModel.updateProgress\<close> makes.\<close>

definition updateProgress_reads :: "string \<Rightarrow> string \<Rightarrow> User store \<Rightarrow> nat" where
  "updateProgress_reads uid courseId users =
     (case Map_get uid users of
        None \<Rightarrow> 0
      | Some user \<Rightarrow>
          (case findIndex (\<lambda>p. cp_courseId p = courseId) (user_progress user) of
             Some existingProgressIndex \<Rightarrow> 1
           | None \<Rightarrow> 3))"

section \<open>\<open>CourseModel\<close>\<close>

datatype CourseLevel = BEGINNER | INTERMEDIATE | ADVANCED | ALL_LEVELS

datatype LessonType = VIDEO | TEXT | INTERACTIVE | ASSIGNMENT

text \<open>
  Modules and lessons are carried with their scalar fields.  The content of a lesson
  (\<open>LessonContent\<close>, \<open>Resource\<close>) and the optional \<open>Quiz\<close> of a module are left out: no
  store operation and no handler reads or writes them.
\<close>

record Lesson =
  lesson_id :: string
  lesson_title :: string
  lesson_description :: string
  lesson_order :: number
  lesson_type :: LessonType
  lesson_duration :: number
  lesson_isPreview :: bool

record CourseModule =
  module_id :: string
  module_title :: string
  module_description :: string
  module_order :: number
  module_duration :: number
  module_lessons :: "Lesson list"
  module_isPreview :: bool

record Course =
  course_id :: string
  course_title :: string
  course_description :: string
  course_shortDescription :: string
  course_instructorId :: string
  course_instructorName :: string
  course_category :: string
  course_subcategory :: string
  course_level :: CourseLevel
  course_price :: number
  course_currency :: string
  course_thumbnail :: string
  course_previewVideo :: "string option"
  course_duration :: number
  course_modules :: "CourseModule list"
  course_requirements :: "string list"
  course_learningOutcomes :: "string list"
  course_tags :: "string list"
  course_rating :: number
  course_reviewCount :: number
  course_enrollmentCount :: number
  course_isPublished :: bool
  course_createdAt :: date
  course_updatedAt :: date

text \<open>\<open>Omit<Course, 'id' | 'createdAt' | 'updatedAt'>\<close>, the argument of \<open>CourseModel.create\<close>.\<close>

record CourseData =
  cd_title :: string
  cd_description :: string
  cd_shortDescription :: string
  cd_instructorId :: string
  cd_instructorName :: string
  cd_category :: string
  cd_subcategory :: string
  cd_level :: CourseLevel
  cd_price :: number
  cd_currency :: string
  cd_thumbnail :: string
  cd_previewVideo :: "string option"
  cd_duration :: number
  cd_modules :: "CourseModule list"
  cd_requirements :: "string list"
  cd_learningOutcomes :: "string list"
  cd_tags :: "string list"
  cd_rating :: number
  cd_reviewCount :: number
  cd_enrollmentCount :: number
  cd_isPublished :: bool

text \<open>\<open>Partial<Course>\<close>, the argument of \<open>CourseModel.update\<close>: \<open>None\<close> for a key the object lacks.\<close>

record PartialCourse =
  pc_id :: "string option"
  pc_title :: "string option"
  pc_description :: "string option"
  pc_shortDescription :: "string option"
  pc_instructorId :: "string option"
  pc_instructorName :: "string option"
  pc_category :: "string option"
  pc_subcategory :: "string option"
  pc_level :: "CourseLevel option"
  pc_price :: "number option"
  pc_currency :: "string option"
  pc_thumbnail :: "string option"
  pc_previewVideo :: "string option option"
  pc_duration :: "number option"
  pc_modules :: "CourseModule list option"
  pc_requirements :: "string list option"
  pc_learningOutcomes :: "string list option"
  pc_tags :: "string list option"
  pc_rating :: "number option"
  pc_reviewCount :: "number option"
  pc_enrollmentCount :: "number option"
  pc_isPublished :: "bool option"
  pc_createdAt :: "date option"
  pc_updatedAt :: "date option"

definition no_updates :: PartialCourse where
  "no_updates =
     \<lparr> pc_id = None,
       pc_title = None,
       pc_description = None,
       pc_shortDescription = None,
       pc_instructorId = None,
       pc_instructorName = None,
       pc_category = None,
       pc_subcategory = None,
       pc_level = None,
       pc_price = None,
       pc_currency = None,
       pc_thumbnail = None,
       pc_previewVideo = None,
       pc_duration = None,
       pc_modules = None,
       pc_requirements = None,
       pc_learningOutcomes = None,
       pc_tags = None,
       pc_rating = None,
       pc_reviewCount = None,
       pc_enrollmentCount = None,
       pc_isPublished = None,
       pc_createdAt = None,
       pc_updatedAt = None \<rparr>"

definition spread_Course :: "Course \<Rightarrow> PartialCourse \<Rightarrow> Course" where
  "spread_Course c u =
     \<lparr> course_id = spread (course_id c) (pc_id u),
       course_title = spread (course_title c) (pc_title u),
       course_description = spread (course_description c) (pc_description u),
       course_shortDescription = spread (course_shortDescription c) (pc_shortDescription u),
       course_instructorId = spread (course_instructorId c) (pc_instructorId u),
       course_instructorName = spread (course_instructorName c) (pc_instructorName u),
       course_category = spread (course_category c) (pc_category u),
       course_subcategory = spread (course_subcategory c) (pc_subcategory u),
       course_level = spread (course_level c) (pc_level u),
       course_price = spread (course_price c) (pc_price u),
       course_currency = spread (course_currency c) (pc_currency u),
       course_thumbnail = spread (course_thumbnail c) (pc_thumbnail u),
       course_previewVideo = spread (course_previewVideo c) (pc_previewVideo u),
       course_duration = spread (course_duration c) (pc_duration u),
       course_modules = spread (course_modules c) (pc_modules u),
       course_requirements = spread (course_requirements c) (pc_requirements u),
       course_learningOutcomes = spread (course_learningOutcomes c) (pc_learningOutcomes u),
       course_tags = spread (course_tags c) (pc_tags u),
       course_rating = spread (course_rating c) (pc_rating u),
       course_reviewCount = spread (course_reviewCount c) (pc_reviewCount u),
       course_enrollmentCount = spread (course_enrollmentCount c) (pc_enrollmentCount u),
       course_isPublished = spread (course_isPublished c) (pc_isPublished u),
       course_createdAt = spread (course_createdAt c) (pc_createdAt u),
       course_updatedAt = spread (course_updatedAt c) (pc_updatedAt u) \<rparr>"

definition CourseModel_create :: "string \<Rightarrow> clock \<Rightarrow> CourseData \<Rightarrow> Course store \<Rightarrow> Course \<times> Course store" where
  "CourseModel_create newId now courseData courses =
     (let course = \<lparr> course_id = newId,
                     course_title = cd_title courseData,
                     course_description = cd_description courseData,
                     course_shortDescription = cd_shortDescription courseData,
                     course_instructorId = cd_instructorId courseData,
                     course_instructorName = cd_instructorName courseData,
                     course_category = cd_category courseData,
                     course_subcategory = cd_subcategory courseData,
                     course_level = cd_level courseData,
                     course_price = cd_price courseData,
                     course_currency = cd_currency courseData,
                     course_thumbnail = cd_thumbnail courseData,
                     course_previewVideo = cd_previewVideo courseData,
                     course_duration = cd_duration courseData,
                     course_modules = cd_modules courseData,
                     course_requirements = cd_requirements courseData,
                     course_learningOutcomes = cd_learningOutcomes courseData,
                     course_tags = cd_tags courseData,
                     course_rating = cd_rating courseData,
                     course_reviewCount = cd_reviewCount courseData,
                     course_enrollmentCount = cd_enrollmentCount courseData,
                     course_isPublished = cd_isPublished courseData,
                     course_createdAt = now 0,
                     course_updatedAt = now 0 \<rparr>
      in (course, Map_set newId course courses))"

definition CourseModel_findById :: "string \<Rightarrow> Course store \<Rightarrow> Course option" where
  "CourseModel_findById ident courses = Map_get ident courses"

text \<open>
  \<open>CourseModel.update\<close>: \<open>{...course, ...updates, updatedAt: new Date()}\<close> is stored under
  the key; the result is the stored record, or \<open>None\<close> (\<open>null\<close>) for an unknown key.
\<close>

definition CourseModel_update ::
  "clock \<Rightarrow> string \<Rightarrow> PartialCourse \<Rightarrow> Course store \<Rightarrow> Course option \<times> Course store" where
  "CourseModel_update now ident updates courses =
     (case Map_get ident courses of
        None \<Rightarrow> (None, courses)
      | Some course \<Rightarrow>
          (let updatedCourse = (spread_Course course updates)\<lparr> course_updatedAt := now 0 \<rparr>
           in (Some updatedCourse, Map_set ident updatedCourse courses)))"

definition CourseModel_delete :: "string \<Rightarrow> Course store \<Rightarrow> Course store \<times> bool" where
  "CourseModel_delete ident courses = Map_delete ident courses"

definition CourseModel_findByInstructor :: "string \<Rightarrow> Course store \<Rightarrow> Course list" where
  "CourseModel_findByInstructor instructorId courses =
     filter (\<lambda>course. course_instructorId course = instructorId) (Map_values courses)"

definition CourseModel_incrementEnrollment :: "clock \<Rightarrow> string \<Rightarrow> Course store \<Rightarrow> Course store \<times> bool" where
  "CourseModel_incrementEnrollment now courseId courses =
     (case Map_get courseId courses of
        None \<Rightarrow> (courses, False)
      | Some course \<Rightarrow>
          (Map_set courseId
             (course\<lparr> course_enrollmentCount := course_enrollmentCount course + 1,
                      course_updatedAt := now 0 \<rparr>) courses, True))"

subsection \<open>\<open>CourseModel.findAll\<close>\<close>

text \<open>
  \<open>String.prototype.toLowerCase\<close> on the ASCII letters (other characters are left as
  they are) and \<open>String.prototype.includes\<close>.
\<close>

definition toLowerCase :: "string \<Rightarrow> string" where
  "toLowerCase s =
     map (\<lambda>c. let n = (of_char c :: nat) in if 65 \<le> n \<and> n \<le> 90 then char_of (n + 32) else c) s"

fun startsWith :: "string \<Rightarrow> string \<Rightarrow> bool" where
  "startsWith s [] = True"
| "startsWith [] (c # t) = False"
| "startsWith (d # s) (c # t) = (d = c \<and> startsWith s t)"

fun String_includes :: "string \<Rightarrow> string \<Rightarrow> bool" where
  "String_includes [] t = (t = [])"
| "String_includes (d # s) t = (startsWith (d # s) t \<or> String_includes s t)"

text \<open>
  The filter object that \<open>findAll\<close> reads (its parameter has type \<open>any\<close>): \<open>None\<close> for a
  key that is absent or \<open>undefined\<close>.  The tests of the code are truthiness tests, so an
  empty string and a rating of 0 do not filter; \<open>priceMin\<close> and \<open>priceMax\<close> are
  compared with \<open>undefined\<close> instead.
\<close>

record CourseFilters =
  filter_category :: "string option"
  filter_level :: "CourseLevel option"
  filter_instructorId :: "string option"
  filter_search :: "string option"
  filter_priceMin :: "number option"
  filter_priceMax :: "number option"
  filter_rating :: "number option"
  filter_includeUnpublished :: "bool option"

definition truthy_string :: "string option \<Rightarrow> bool" where
  "truthy_string s = (case s of None \<Rightarrow> False | Some v \<Rightarrow> v \<noteq> [])"

definition CourseModel_findAll :: "CourseFilters \<Rightarrow> Course store \<Rightarrow> Course list" where
  "CourseModel_findAll filters courses =
     (let courseList = Map_values courses;
          courseList = (if truthy_string (filter_category filters)
                        then filter (\<lambda>course. Some (course_category course) = filter_category filters) courseList
                        else courseList);
          courseList = (if filter_level filters \<noteq> None
                        then filter (\<lambda>course. Some (course_level course) = filter_level filters) courseList
                        else courseList);
          courseList = (if truthy_string (filter_instructorId filters)
                        then filter (\<lambda>course. Some (course_instructorId course) = filter_instructorId filters) courseList
                        else courseList);
          courseList = (case filter_search filters of
                          None \<Rightarrow> courseList
                        | Some search \<Rightarrow>
                            if search = [] then courseList
                            else (let searchTerm = toLowerCase search
                                  in filter (\<lambda>course.
                                       String_includes (toLowerCase (course_title course)) searchTerm \<or>
                                       String_includes (toLowerCase (course_description course)) searchTerm \<or>
                                       list_ex (\<lambda>tag. String_includes (toLowerCase tag) searchTerm) (course_tags course))
                                     courseList));
          courseList = (case filter_priceMin filters of
                          Some priceMin \<Rightarrow> filter (\<lambda>course. course_price course \<ge> priceMin) courseList
                        | None \<Rightarrow> courseList);
          courseList = (case filter_priceMax filters of
                          Some priceMax \<Rightarrow> filter (\<lambda>course. course_price course \<le> priceMax) courseList
                        | None \<Rightarrow> courseList);
          courseList = (case filter_rating filters of
                          Some r \<Rightarrow> (if r \<noteq> 0 then filter (\<lambda>course. course_rating course \<ge> r) courseList
                                     else courseList)
                        | None \<Rightarrow> courseList);
          courseList = (if filter_includeUnpublished filters \<noteq> Some True
                        then filter (\<lambda>course. course_isPublished course) courseList
                        else courseList)
      in courseList)"

section \<open>\<open>PaymentModel\<close>\<close>

datatype PaymentStatus = PENDING | SUCCEEDED | FAILED | CANCELED | REFUNDED

record PaymentIntent =
  payment_id :: string
  payment_amount :: number
  payment_currency :: string
  payment_status :: PaymentStatus
  payment_courseId :: string
  payment_userId :: string
  payment_stripePaymentIntentId :: string
  payment_createdAt :: date
  payment_updatedAt :: date

text \<open>\<open>Omit<PaymentIntent, 'id' | 'createdAt' | 'updatedAt'>\<close>.\<close>

record PaymentData =
  pd_amount :: number
  pd_currency :: string
  pd_status :: PaymentStatus
  pd_courseId :: string
  pd_userId :: string
  pd_stripePaymentIntentId :: string

definition PaymentModel_create ::
  "string \<Rightarrow> clock \<Rightarrow> PaymentData \<Rightarrow> PaymentIntent store \<Rightarrow> PaymentIntent \<times> PaymentIntent store" where
  "PaymentModel_create newId now paymentData payments =
     (let payment = \<lparr> payment_id = newId,
                      payment_amount = pd_amount paymentData,
                      payment_currency = pd_currency paymentData,
                      payment_status = pd_status paymentData,
                      payment_courseId = pd_courseId paymentData,
                      payment_userId = pd_userId paymentData,
                      payment_stripePaymentIntentId = pd_stripePaymentIntentId paymentData,
                      payment_createdAt = now 0,
                      payment_updatedAt = now 0 \<rparr>
      in (payment, Map_set newId payment payments))"

definition PaymentModel_findById :: "string \<Rightarrow> PaymentIntent store \<Rightarrow> PaymentIntent option" where
  "PaymentModel_findById ident payments = Map_get ident payments"

definition PaymentModel_findByStripeId :: "string \<Rightarrow> PaymentIntent store \<Rightarrow> PaymentIntent option" where
  "PaymentModel_findByStripeId stripePaymentIntentId payments =
     find (\<lambda>payment. payment_stripePaymentIntentId payment = stripePaymentIntentId) (Map_values payments)"

text \<open>
  \<open>PaymentModel.update\<close>.  Every call in the repository passes \<open>{ status: ... }\<close>, so the
  update object is modelled by its \<open>status\<close> key alone.
\<close>

definition PaymentModel_update ::
  "clock \<Rightarrow> string \<Rightarrow> PaymentStatus option \<Rightarrow> PaymentIntent store \<Rightarrow> PaymentIntent option \<times> PaymentIntent store" where
  "PaymentModel_update now ident updates_status payments =
     (case Map_get ident payments of
        None \<Rightarrow> (None, payments)
      | Some payment \<Rightarrow>
          (let updatedPayment = payment\<lparr> payment_status := spread (payment_status payment) updates_status,
                                         payment_updatedAt := now 0 \<rparr>
           in (Some updatedPayment, Map_set ident updatedPayment payments)))"

definition PaymentModel_findSuccessfulPayment :: "string \<Rightarrow> string \<Rightarrow> PaymentIntent store \<Rightarrow> PaymentIntent option" where
  "PaymentModel_findSuccessfulPayment uid courseId payments =
     find (\<lambda>payment. payment_userId payment = uid \<and>
                      payment_courseId payment = courseId \<and>
                      payment_status payment = SUCCEEDED) (Map_values payments)"

section \<open>The state of the process\<close>

record state =
  users :: "User store"
  courses :: "Course store"
  payments :: "PaymentIntent store"

section \<open>Authentication and authorization middleware\<close>

text \<open>
  Reading the bearer token and verifying its signature is the work of the JWT library.
  The model starts from the outcome: no token in the header, a token that fails
  verification, or the identity a valid token carries.  A middleware returns the
  response it sends, or \<open>None\<close> when it calls \<open>next()\<close>.
\<close>

datatype credentials = NoToken | InvalidToken | Token AuthUser

definition authenticate :: "credentials \<Rightarrow> 'a response + AuthUser" where
  "authenticate cred =
     (case cred of
        NoToken \<Rightarrow> Inl (sendUnauthorized ''Access token required'')
      | InvalidToken \<Rightarrow> Inl (sendUnauthorized ''Invalid or expired token'')
      | Token payload \<Rightarrow> Inr payload)"

definition optionalAuth :: "credentials \<Rightarrow> AuthUser option" where
  "optionalAuth cred =
     (case cred of
        NoToken \<Rightarrow> None
      | InvalidToken \<Rightarrow> None
      | Token payload \<Rightarrow> Some payload)"

definition requireInstructorOrAdmin :: "AuthUser option \<Rightarrow> 'a response option" where
  "requireInstructorOrAdmin req_user =
     (case req_user of
        None \<Rightarrow> Some (sendUnauthorized ''Authentication required'')
      | Some user \<Rightarrow>
          (if role user \<noteq> INSTRUCTOR \<and> role user \<noteq> ADMIN
           then Some (sendForbidden ''Instructor or admin access required'')
           else None))"

section \<open>\<open>AuthController.signup\<close>\<close>

record SignupRequest =
  signup_email :: string
  signup_password :: string
  signup_firstName :: string
  signup_lastName :: string
  signup_role :: "UserRole option"

definition getDefaultPreferences :: UserPreferences where
  "getDefaultPreferences =
     \<lparr> notifications_email = True,
       notifications_push = True,
       notifications_courseUpdates = True,
       notifications_marketing = False,
       privacy_profileVisibility = ''public'',
       privacy_showProgress = True,
       learning_difficulty = ''intermediate'',
       learning_pace = ''normal'',
       learning_reminderTime = None \<rparr>"

record UserProfile =
  profile_id :: string
  profile_email :: string
  profile_firstName :: string
  profile_lastName :: string
  profile_role :: UserRole
  profile_avatar :: "string option"
  profile_createdAt :: date
  profile_updatedAt :: date

record SignupData =
  data_user :: UserProfile
  data_accessToken :: string
  data_refreshToken :: string

text \<open>
  What the handler takes from outside the process: the hash \<open>bcrypt.hash\<close> returns, the
  id \<open>UserModel.create\<close> generates and the token pair \<open>generateTokenPair\<close> signs.  A
  \<open>None\<close> is a call that throws; the handler's \<open>catch\<close> then answers 500, and what was
  written to the store before stays written.
\<close>

record SignupEnv =
  env_hashedPassword :: "string option"
  env_newId :: string
  env_tokens :: "(string \<times> string) option"

text \<open>The object \<open>signup\<close> hands to \<open>UserModel.create\<close>.\<close>

definition signup_userData :: "SignupRequest \<Rightarrow> string \<Rightarrow> UserData" where
  "signup_userData body hashedPassword =
     \<lparr> ud_email = signup_email body,
       ud_password = hashedPassword,
       ud_firstName = signup_firstName body,
       ud_lastName = signup_lastName body,
       ud_role = (case signup_role body of None \<Rightarrow> STUDENT | Some r \<Rightarrow> r),
       ud_avatar = None,
       ud_bio = Some [],
       ud_skills = [],
       ud_preferences = getDefaultPreferences,
       ud_progress = [] \<rparr>"

definition signup :: "clock \<Rightarrow> SignupEnv \<Rightarrow> SignupRequest \<Rightarrow> state \<Rightarrow> SignupData response \<times> state" where
  "signup now env body st =
     (case UserModel_findByEmail (signup_email body) (users st) of
        Some existingUser \<Rightarrow> (sendError 409 ''User with this email already exists'', st)
      | None \<Rightarrow>
         (case env_hashedPassword env of
            None \<Rightarrow> (sendError 500 ''Internal server error'', st)
          | Some hashedPassword \<Rightarrow>
             (let (user, users') =
                    UserModel_create (env_newId env) now (signup_userData body hashedPassword) (users st);
                  st' = st\<lparr> users := users' \<rparr>
              in case env_tokens env of
                   None \<Rightarrow> (sendError 500 ''Internal server error'', st')
                 | Some (accessToken, refreshToken) \<Rightarrow>
                    (sendSuccess
                       \<lparr> data_user =
                           \<lparr> profile_id = user_id user,
                             profile_email = user_email user,
                             profile_firstName = user_firstName user,
                             profile_lastName = user_lastName user,
                             profile_role = user_role user,
                             profile_avatar = user_avatar user,
                             profile_createdAt = user_createdAt user,
                             profile_updatedAt = user_updatedAt user \<rparr>,
                         data_accessToken = accessToken,
                         data_refreshToken = refreshToken \<rparr>
                       ''Account created successfully'', st'))))"

section \<open>\<open>UserController\<close>\<close>

text \<open>
  \<open>updateProgress\<close> (\<open>PUT /users/progress/:courseId\<close>).  The route validates neither the
  parameter nor the body; the three body fields are taken at the types
  \<open>CourseProgress\<close> declares, \<open>None\<close> for a field the body lacks.  The update object
  always carries the four keys, so a missing body field is written as \<open>undefined\<close>.
\<close>

record ProgressBody =
  body_completedModules :: "string list option"
  body_currentModule :: "string option"
  body_progressPercentage :: "number option"

definition updateProgress ::
  "clock \<Rightarrow> AuthUser option \<Rightarrow> string \<Rightarrow> ProgressBody \<Rightarrow> state \<Rightarrow> unit response \<times> state" where
  "updateProgress now req_user courseId body st =
     (case req_user of
        None \<Rightarrow> (sendError 401 ''Authentication required'', st)
      | Some caller \<Rightarrow>
          (let (users', ok) =
                 UserModel_updateProgress (later 1 now) (userId caller) courseId
                   \<lparr> pp_courseId = None,
                     pp_enrolledAt = None,
                     pp_completedModules = Some (body_completedModules body),
                     pp_currentModule = Some (body_currentModule body),
                     pp_progressPercentage = Some (body_progressPercentage body),
                     pp_lastAccessedAt = Some (now 0),
                     pp_certificateEarned = None,
                     pp_certificateUrl = None \<rparr> (users st)
           in if \<not> ok then (sendNotFound ''User'', st\<lparr> users := users' \<rparr>)
              else (sendSuccess () ''Progress updated successfully'', st\<lparr> users := users' \<rparr>)))"

definition deleteAccount :: "AuthUser option \<Rightarrow> state \<Rightarrow> unit response \<times> state" where
  "deleteAccount req_user st =
     (case req_user of
        None \<Rightarrow> (sendError 401 ''Authentication required'', st)
      | Some caller \<Rightarrow>
          (let (users', ok) = UserModel_delete (userId caller) (users st)
           in if \<not> ok then (sendNotFound ''User'', st\<lparr> users := users' \<rparr>)
              else (sendSuccess () ''Account deleted successfully'', st\<lparr> users := users' \<rparr>)))"

text \<open>The routes put \<open>authenticate\<close> before both handlers.\<close>

definition route_updateProgress ::
  "clock \<Rightarrow> credentials \<Rightarrow> string \<Rightarrow> ProgressBody \<Rightarrow> state \<Rightarrow> unit response \<times> state" where
  "route_updateProgress now cred courseId body st =
     (case authenticate cred of
        Inl r \<Rightarrow> (r, st)
      | Inr caller \<Rightarrow> updateProgress now (Some caller) courseId body st)"

definition route_deleteAccount :: "credentials \<Rightarrow> state \<Rightarrow> unit response \<times> state" where
  "route_deleteAccount cred st =
     (case authenticate cred of
        Inl r \<Rightarrow> (r, st)
      | Inr caller \<Rightarrow> deleteAccount (Some caller) st)"

section \<open>Validation middleware\<close>

text \<open>
  The Joi rules the schemas use, on values that already have the declared types.
  \<open>Joi.string()\<close> refuses the empty string, and \<open>min\<close> and \<open>max\<close> bound the length;
  \<open>Joi.number()\<close> refuses a number outside the safe range, whose bounds are
  \<open>Number.MIN_SAFE_INTEGER\<close> and \<open>Number.MAX_SAFE_INTEGER\<close>; a schema refuses a key it
  does not declare.  \<open>validateBody\<close>, \<open>validateParams\<close> and \<open>validateQuery\<close> answer
  \<open>sendValidationError\<close>, status 400, when the schema refuses the value.
\<close>

definition MAX_SAFE_INTEGER :: number where
  "MAX_SAFE_INTEGER = 2 ^ 53 - 1"

definition Joi_number :: "number \<Rightarrow> bool" where
  "Joi_number n = (- MAX_SAFE_INTEGER \<le> n \<and> n \<le> MAX_SAFE_INTEGER)"

definition Joi_string :: "nat \<Rightarrow> nat \<Rightarrow> string \<Rightarrow> bool" where
  "Joi_string lo hi s = (s \<noteq> [] \<and> lo \<le> length s \<and> length s \<le> hi)"

definition Joi_string_any :: "string \<Rightarrow> bool" where
  "Joi_string_any s = (s \<noteq> [])"

definition Joi_optional :: "('a \<Rightarrow> bool) \<Rightarrow> 'a option \<Rightarrow> bool" where
  "Joi_optional P v = (case v of None \<Rightarrow> True | Some x \<Rightarrow> P x)"

definition idParamSchema :: "string \<Rightarrow> bool" where
  "idParamSchema ident = Joi_string_any ident"

definition validation_failed :: "'a response" where
  "validation_failed = sendError 400 ''Validation failed''"

section \<open>\<open>CourseController\<close>\<close>

subsection \<open>Listing and detail\<close>

datatype SortBy = by_title | by_price | by_rating | by_enrollmentCount | by_createdAt

datatype SortOrder = asc | desc

text \<open>JavaScript's \<open>>\<close> on two strings compares them code unit by code unit.\<close>

fun string_gt :: "string \<Rightarrow> string \<Rightarrow> bool" where
  "string_gt [] t = False"
| "string_gt (c # s) [] = True"
| "string_gt (c # s) (d # t) =
     ((of_char c :: nat) > of_char d \<or> (c = d \<and> string_gt s t))"

definition value_gt :: "SortBy \<Rightarrow> Course \<Rightarrow> Course \<Rightarrow> bool" where
  "value_gt sortBy a b =
     (case sortBy of
        by_title \<Rightarrow> string_gt (course_title a) (course_title b)
      | by_price \<Rightarrow> course_price a > course_price b
      | by_rating \<Rightarrow> course_rating a > course_rating b
      | by_enrollmentCount \<Rightarrow> course_enrollmentCount a > course_enrollmentCount b
      | by_createdAt \<Rightarrow> course_createdAt a > course_createdAt b)"

text \<open>The comparator of \<open>getAllCourses\<close>: it answers 1 or -1, never 0.\<close>

definition compareCourses :: "SortBy \<Rightarrow> SortOrder \<Rightarrow> Course \<Rightarrow> Course \<Rightarrow> int" where
  "compareCourses sortBy sortOrder a b =
     (if sortOrder = asc then (if value_gt sortBy a b then 1 else -1)
      else (if value_gt sortBy b a then 1 else -1))"

text \<open>
  \<open>Array.prototype.sort\<close> with a comparator, as an insertion sort: an element moves
  right past the elements the comparator puts before it.  The language fixes the result
  for a consistent comparator only.  The comparator of \<open>getAllCourses\<close> is not consistent
  on two courses with equal sort values (it answers -1 both ways); there the order of
  the result is the engine's choice and may differ from the order computed here.  The
  elements of the result are the elements of the argument in either case, and the
  properties below speak of membership only.
\<close>

fun sort_insert :: "('a \<Rightarrow> 'a \<Rightarrow> int) \<Rightarrow> 'a \<Rightarrow> 'a list \<Rightarrow> 'a list" where
  "sort_insert cmp x [] = [x]"
| "sort_insert cmp x (y # ys) =
     (if cmp x y > 0 then y # sort_insert cmp x ys else x # y # ys)"

definition Array_sort :: "('a \<Rightarrow> 'a \<Rightarrow> int) \<Rightarrow> 'a list \<Rightarrow> 'a list" where
  "Array_sort cmp xs = foldr (sort_insert cmp) xs []"

text \<open>\<open>Array.prototype.slice(start, end)\<close> with integer arguments; a negative one counts from the end.\<close>

definition Array_slice :: "'a list \<Rightarrow> int \<Rightarrow> int \<Rightarrow> 'a list" where
  "Array_slice xs start fin =
     (let n = int (length xs);
          k = (if start < 0 then max (n + start) 0 else min start n);
          final = (if fin < 0 then max (n + fin) 0 else min fin n)
      in take (nat (final - k)) (drop (nat k) xs))"

text \<open>
  \<open>createPagination\<close>.  \<open>totalPages\<close> is \<open>Math.ceil(total / limit)\<close>; with \<open>limit = 0\<close> the
  quotient is not a finite number, which the model writes \<open>None\<close>, and \<open>hasNext\<close> is then
  \<open>page < Infinity\<close> for a positive total and \<open>page < NaN\<close>, false, for \<open>total = 0\<close>.
\<close>

record PaginationInfo =
  pagination_page :: int
  pagination_limit :: int
  pagination_total :: nat
  pagination_totalPages :: "int option"
  pagination_hasNext :: bool
  pagination_hasPrev :: bool

definition createPagination :: "int \<Rightarrow> int \<Rightarrow> nat \<Rightarrow> PaginationInfo" where
  "createPagination page limit total_count =
     (let totalPages = (if limit = 0 then None
                        else Some (\<lceil>rat_of_nat total_count / rat_of_int limit\<rceil>))
      in \<lparr> pagination_page = page,
           pagination_limit = limit,
           pagination_total = total_count,
           pagination_totalPages = totalPages,
           pagination_hasNext = (case totalPages of Some n \<Rightarrow> page < n | None \<Rightarrow> total_count > 0),
           pagination_hasPrev = (page > 1) \<rparr>)"

text \<open>
  The query of \<open>getAllCourses\<close>: \<open>page\<close> and \<open>limit\<close> (integers here), the filter keys,
  \<open>sortBy\<close> and \<open>sortOrder\<close>.  Whatever \<open>includeUnpublished\<close> the query carries is
  overwritten by the handler.
\<close>

record ListQuery =
  query_page :: "int option"
  query_limit :: "int option"
  query_filters :: CourseFilters
  query_sortBy :: "SortBy option"
  query_sortOrder :: "SortOrder option"

definition getAllCourses :: "AuthUser option \<Rightarrow> ListQuery \<Rightarrow> state \<Rightarrow> (Course list \<times> PaginationInfo) response" where
  "getAllCourses req_user query st =
     (let page = (case query_page query of None \<Rightarrow> 1 | Some n \<Rightarrow> n);
          limit = (case query_limit query of None \<Rightarrow> 12 | Some n \<Rightarrow> n);
          sortBy = (case query_sortBy query of None \<Rightarrow> by_createdAt | Some k \<Rightarrow> k);
          sortOrder = (case query_sortOrder query of None \<Rightarrow> desc | Some k \<Rightarrow> k);
          courseList = CourseModel_findAll
                     ((query_filters query)
                        \<lparr> filter_includeUnpublished := Some (map_option role req_user = Some ADMIN) \<rparr>)
                     (courses st);
          courseList = Array_sort (compareCourses sortBy sortOrder) courseList;
          startIndex = (page - 1) * limit;
          endIndex = startIndex + limit;
          paginatedCourses = Array_slice courseList startIndex endIndex;
          pagination = createPagination page limit (length courseList)
      in sendSuccess (paginatedCourses, pagination) ''Courses retrieved successfully'')"

record CourseDetail =
  detail_course :: Course
  detail_isEnrolled :: bool
  detail_progress :: "CourseProgress option"

definition getCourseById :: "AuthUser option \<Rightarrow> string \<Rightarrow> state \<Rightarrow> CourseDetail response" where
  "getCourseById req_user ident st =
     (case CourseModel_findById ident (courses st) of
        None \<Rightarrow> sendNotFound ''Course''
      | Some course \<Rightarrow>
          if \<not> course_isPublished course \<and>
             map_option role req_user \<noteq> Some ADMIN \<and>
             map_option userId req_user \<noteq> Some (course_instructorId course)
          then sendForbidden ''Course not available''
          else
            (let userProgress =
                   (case req_user of
                      None \<Rightarrow> None
                    | Some caller \<Rightarrow>
                        (case UserModel_findById (userId caller) (users st) of
                           None \<Rightarrow> None
                         | Some user \<Rightarrow> find (\<lambda>p. cp_courseId p = ident) (user_progress user)))
             in sendSuccess
                  \<lparr> detail_course = course,
                    detail_isEnrolled = (userProgress \<noteq> None),
                    detail_progress = userProgress \<rparr>
                  ''Course retrieved successfully''))"

text \<open>
  \<open>paginationSchema\<close> declares \<open>page\<close> (at least 1) and \<open>limit\<close> (1 to 100) and no other
  key, so a query with a filter key, \<open>sortBy\<close> or \<open>sortOrder\<close> is refused.
\<close>

definition no_filters :: CourseFilters where
  "no_filters =
     \<lparr> filter_category = None, filter_level = None, filter_instructorId = None,
       filter_search = None, filter_priceMin = None, filter_priceMax = None,
       filter_rating = None, filter_includeUnpublished = None \<rparr>"

definition paginationSchema :: "ListQuery \<Rightarrow> bool" where
  "paginationSchema query =
     (Joi_optional (\<lambda>n. Joi_number (of_int n) \<and> n \<ge> 1) (query_page query) \<and>
      Joi_optional (\<lambda>n. Joi_number (of_int n) \<and> n \<ge> 1 \<and> n \<le> 100) (query_limit query) \<and>
      query_filters query = no_filters \<and>
      query_sortBy query = None \<and>
      query_sortOrder query = None)"

text \<open>
  The routes: \<open>GET /\<close> runs \<open>optionalAuth\<close> and \<open>validateQuery(paginationSchema)\<close>,
  \<open>GET /:id\<close> runs \<open>optionalAuth\<close> and \<open>validateParams(idParamSchema)\<close>, before the
  handler.
\<close>

definition route_getAllCourses :: "credentials \<Rightarrow> ListQuery \<Rightarrow> state \<Rightarrow> (Course list \<times> PaginationInfo) response" where
  "route_getAllCourses cred query st =
     (if \<not> paginationSchema query then validation_failed
      else getAllCourses (optionalAuth cred) query st)"

definition route_getCourseById :: "credentials \<Rightarrow> string \<Rightarrow> state \<Rightarrow> CourseDetail response" where
  "route_getCourseById cred ident st =
     (if \<not> idParamSchema ident then validation_failed
      else getCourseById (optionalAuth cred) ident st)"

subsection \<open>Create and update\<close>

record CreateCourseRequest =
  create_title :: string
  create_description :: string
  create_shortDescription :: string
  create_category :: string
  create_subcategory :: string
  create_level :: CourseLevel
  create_price :: number
  create_requirements :: "string list"
  create_learningOutcomes :: "string list"
  create_tags :: "string list"

record UpdateCourseRequest =
  update_title :: "string option"
  update_description :: "string option"
  update_shortDescription :: "string option"
  update_category :: "string option"
  update_subcategory :: "string option"
  update_level :: "CourseLevel option"
  update_price :: "number option"
  update_requirements :: "string list option"
  update_learningOutcomes :: "string list option"
  update_tags :: "string list option"

text \<open>The Joi schemas of the two request bodies.\<close>

definition createCourseSchema :: "CreateCourseRequest \<Rightarrow> bool" where
  "createCourseSchema body =
     (Joi_string 5 200 (create_title body) \<and>
      Joi_string 50 2000 (create_description body) \<and>
      Joi_string 20 300 (create_shortDescription body) \<and>
      Joi_string_any (create_category body) \<and>
      Joi_string_any (create_subcategory body) \<and>
      Joi_number (create_price body) \<and> create_price body \<ge> 0 \<and>
      list_all Joi_string_any (create_requirements body) \<and>
      list_all Joi_string_any (create_learningOutcomes body) \<and>
      list_all Joi_string_any (create_tags body))"

definition updateCourseSchema :: "UpdateCourseRequest \<Rightarrow> bool" where
  "updateCourseSchema body =
     (Joi_optional (Joi_string 5 200) (update_title body) \<and>
      Joi_optional (Joi_string 50 2000) (update_description body) \<and>
      Joi_optional (Joi_string 20 300) (update_shortDescription body) \<and>
      Joi_optional Joi_string_any (update_category body) \<and>
      Joi_optional Joi_string_any (update_subcategory body) \<and>
      Joi_optional (\<lambda>p. Joi_number p \<and> p \<ge> 0) (update_price body) \<and>
      Joi_optional (list_all Joi_string_any) (update_requirements body) \<and>
      Joi_optional (list_all Joi_string_any) (update_learningOutcomes body) \<and>
      Joi_optional (list_all Joi_string_any) (update_tags body))"

definition createCourse ::
  "string \<Rightarrow> clock \<Rightarrow> AuthUser option \<Rightarrow> CreateCourseRequest \<Rightarrow> state \<Rightarrow> Course response \<times> state" where
  "createCourse newId now req_user courseData st =
     (case req_user of
        None \<Rightarrow> (sendError 401 ''Authentication required'', st)
      | Some caller \<Rightarrow>
          (case UserModel_findById (userId caller) (users st) of
             None \<Rightarrow> (sendNotFound ''Instructor'', st)
           | Some instructor \<Rightarrow>
               (let (course, courses') =
                      CourseModel_create newId now
                        \<lparr> cd_title = create_title courseData,
                          cd_description = create_description courseData,
                          cd_shortDescription = create_shortDescription courseData,
                          cd_instructorId = userId caller,
                          cd_instructorName = user_firstName instructor @ '' '' @ user_lastName instructor,
                          cd_category = create_category courseData,
                          cd_subcategory = create_subcategory courseData,
                          cd_level = create_level courseData,
                          cd_price = create_price courseData,
                          cd_currency = ''USD'',
                          cd_thumbnail = ''https://images.pexels.com/photos/270348/pexels-photo-270348.jpeg'',
                          cd_previewVideo = None,
                          cd_duration = 0,
                          cd_modules = [],
                          cd_requirements = create_requirements courseData,
                          cd_learningOutcomes = create_learningOutcomes courseData,
                          cd_tags = create_tags courseData,
                          cd_rating = 0,
                          cd_reviewCount = 0,
                          cd_enrollmentCount = 0,
                          cd_isPublished = False \<rparr> (courses st)
                in (sendSuccess course ''Course created successfully'', st\<lparr> courses := courses' \<rparr>))))"

definition updates_of_request :: "UpdateCourseRequest \<Rightarrow> PartialCourse" where
  "updates_of_request body =
     no_updates
       \<lparr> pc_title := update_title body,
         pc_description := update_description body,
         pc_shortDescription := update_shortDescription body,
         pc_category := update_category body,
         pc_subcategory := update_subcategory body,
         pc_level := update_level body,
         pc_price := update_price body,
         pc_requirements := update_requirements body,
         pc_learningOutcomes := update_learningOutcomes body,
         pc_tags := update_tags body \<rparr>"

definition updateCourse ::
  "clock \<Rightarrow> AuthUser option \<Rightarrow> string \<Rightarrow> UpdateCourseRequest \<Rightarrow> state \<Rightarrow> Course response \<times> state" where
  "updateCourse now req_user ident updates st =
     (case req_user of
        None \<Rightarrow> (sendError 401 ''Authentication required'', st)
      | Some caller \<Rightarrow>
          (case CourseModel_findById ident (courses st) of
             None \<Rightarrow> (sendNotFound ''Course'', st)
           | Some course \<Rightarrow>
               if course_instructorId course \<noteq> userId caller \<and> role caller \<noteq> ADMIN
               then (sendForbidden ''You can only update your own courses'', st)
               else
                 (case CourseModel_update now ident (updates_of_request updates) (courses st) of
                    (None, courses') \<Rightarrow> (sendNotFound ''Course'', st\<lparr> courses := courses' \<rparr>)
                  | (Some updatedCourse, courses') \<Rightarrow>
                      (sendSuccess updatedCourse ''Course updated successfully'',
                       st\<lparr> courses := courses' \<rparr>))))"

text \<open>
  The course routes: \<open>POST /\<close> and \<open>PUT /:id\<close> run \<open>authenticate\<close>,
  \<open>requireInstructorOrAdmin\<close> and the validation middleware before the handler.
\<close>

definition route_createCourse ::
  "string \<Rightarrow> clock \<Rightarrow> credentials \<Rightarrow> CreateCourseRequest \<Rightarrow> state \<Rightarrow> Course response \<times> state" where
  "route_createCourse newId now cred body st =
     (case authenticate cred of
        Inl r \<Rightarrow> (r, st)
      | Inr caller \<Rightarrow>
          (case requireInstructorOrAdmin (Some caller) of
             Some r \<Rightarrow> (r, st)
           | None \<Rightarrow>
               if \<not> createCourseSchema body then (validation_failed, st)
               else createCourse newId now (Some caller) body st))"

definition route_updateCourse ::
  "clock \<Rightarrow> credentials \<Rightarrow> string \<Rightarrow> UpdateCourseRequest \<Rightarrow> state \<Rightarrow> Course response \<times> state" where
  "route_updateCourse now cred ident body st =
     (case authenticate cred of
        Inl r \<Rightarrow> (r, st)
      | Inr caller \<Rightarrow>
          (case requireInstructorOrAdmin (Some caller) of
             Some r \<Rightarrow> (r, st)
           | None \<Rightarrow>
               if \<not> idParamSchema ident then (validation_failed, st)
               else if \<not> updateCourseSchema body then (validation_failed, st)
               else updateCourse now (Some caller) ident body st))"

subsection \<open>Enrollment\<close>

text \<open>
  \<open>enrollInCourse\<close>.  The body is not validated; \<open>paymentIntentId\<close> is taken as a string
  or absent, and \<open>!paymentIntentId\<close> holds for the absent one and for the empty string.
  The free path and the paid path end in the same two store calls, \<open>enroll_user\<close> here.
  The progress object reads the clock twice, \<open>UserModel.updateProgress\<close> reads it next
  (three times when it pushes, as it does after the check for an existing record), and
  \<open>CourseModel.incrementEnrollment\<close> reads it last.  The results of the two store calls
  are not tested.
\<close>

definition enroll_user :: "clock \<Rightarrow> string \<Rightarrow> string \<Rightarrow> state \<Rightarrow> unit response \<times> state" where
  "enroll_user now uid ident st =
     (let (users', ok) =
            UserModel_updateProgress (later 2 now) uid ident
              \<lparr> pp_courseId = Some ident,
                pp_enrolledAt = Some (now 0),
                pp_completedModules = Some (Some []),
                pp_currentModule = None,
                pp_progressPercentage = Some (Some 0),
                pp_lastAccessedAt = Some (now 1),
                pp_certificateEarned = None,
                pp_certificateUrl = None \<rparr> (users st);
          (courses', ok') =
            CourseModel_incrementEnrollment
              (later (2 + updateProgress_reads uid ident (users st)) now) ident (courses st)
      in (sendSuccess () ''Enrolled in course successfully'',
          st\<lparr> users := users', courses := courses' \<rparr>))"

definition enrollInCourse ::
  "clock \<Rightarrow> AuthUser option \<Rightarrow> string \<Rightarrow> string option \<Rightarrow> state \<Rightarrow> unit response \<times> state" where
  "enrollInCourse now req_user ident paymentIntentId st =
     (case req_user of
        None \<Rightarrow> (sendError 401 ''Authentication required'', st)
      | Some caller \<Rightarrow>
          (case CourseModel_findById ident (courses st) of
             None \<Rightarrow> (sendNotFound ''Course'', st)
           | Some course \<Rightarrow>
               if \<not> course_isPublished course
               then (sendForbidden ''Course is not available for enrollment'', st)
               else
                 (case UserModel_findById (userId caller) (users st) of
                    None \<Rightarrow> (sendNotFound ''User'', st)
                  | Some user \<Rightarrow>
                      (case find (\<lambda>p. cp_courseId p = ident) (user_progress user) of
                         Some existingProgress \<Rightarrow> (sendError 409 ''Already enrolled in this course'', st)
                       | None \<Rightarrow>
                           if course_price course = 0 then enroll_user now (userId caller) ident st
                           else
                             (case paymentIntentId of
                                None \<Rightarrow> (sendError 400 ''Payment required for paid courses'', st)
                              | Some stripeId \<Rightarrow>
                                  if stripeId = []
                                  then (sendError 400 ''Payment required for paid courses'', st)
                                  else
                                    (case PaymentModel_findByStripeId stripeId (payments st) of
                                       None \<Rightarrow> (sendError 400 ''Payment not completed'', st)
                                     | Some payment \<Rightarrow>
                                         if payment_status payment \<noteq> SUCCEEDED
                                         then (sendError 400 ''Payment not completed'', st)
                                         else enroll_user now (userId caller) ident st))))))"

definition route_enrollInCourse ::
  "clock \<Rightarrow> credentials \<Rightarrow> string \<Rightarrow> string option \<Rightarrow> state \<Rightarrow> unit response \<times> state" where
  "route_enrollInCourse now cred ident paymentIntentId st =
     (case authenticate cred of
        Inl r \<Rightarrow> (r, st)
      | Inr caller \<Rightarrow>
          if \<not> idParamSchema ident then (validation_failed, st)
          else enrollInCourse now (Some caller) ident paymentIntentId st)"

section \<open>\<open>PaymentController\<close>\<close>

subsection \<open>The Stripe service\<close>

text \<open>
  The calls to Stripe are outside the process.  The model takes what Stripe answers as
  an argument: the \<open>status\<close> of the retrieved payment intent, the \<open>status\<close> of the
  created refund, the event \<open>constructEvent\<close> returns.  \<open>None\<close> is a call that throws
  (the service is not configured, the request fails, the signature is refused).
\<close>

definition stripeService_confirmPayment :: "string option \<Rightarrow> PaymentStatus option" where
  "stripeService_confirmPayment paymentIntent_status =
     (case paymentIntent_status of
        None \<Rightarrow> None
      | Some s \<Rightarrow>
          Some (if s = ''succeeded'' then SUCCEEDED
                else if s = ''processing'' then PENDING
                else if s = ''requires_payment_method'' \<or> s = ''requires_confirmation'' \<or>
                        s = ''requires_action'' then PENDING
                else if s = ''canceled'' then CANCELED
                else FAILED))"

definition stripeService_refundPayment :: "string option \<Rightarrow> bool option" where
  "stripeService_refundPayment refund_status =
     (case refund_status of
        None \<Rightarrow> None
      | Some s \<Rightarrow> Some (s = ''succeeded''))"

record StripeEvent =
  event_type :: string
  event_data_object_id :: string

text \<open>
  \<open>stripeService.handleWebhook\<close> hands its payload to \<open>stripe.webhooks.constructEvent\<close>.
  That function works on the raw text of the request: it checks the signature against
  the text and parses the text, which the model takes as the argument \<open>verify\<close>
  (\<open>None\<close> when the check or the parse throws).  For a payload that is not the raw text
  but an object it throws.  The service throws before the call when Stripe or the
  webhook secret is not configured.
\<close>

datatype Payload = RawBody string | ParsedObject string

definition constructEvent :: "(string \<Rightarrow> string \<Rightarrow> StripeEvent option) \<Rightarrow> Payload \<Rightarrow> string \<Rightarrow> StripeEvent option" where
  "constructEvent verify payload signature =
     (case payload of
        RawBody text \<Rightarrow> verify text signature
      | ParsedObject text \<Rightarrow> None)"

definition stripeService_handleWebhook ::
  "bool \<Rightarrow> (string \<Rightarrow> string \<Rightarrow> StripeEvent option) \<Rightarrow> Payload \<Rightarrow> string \<Rightarrow> StripeEvent option" where
  "stripeService_handleWebhook configured verify payload signature =
     (if \<not> configured then None else constructEvent verify payload signature)"

subsection \<open>The handlers\<close>

fun status_string :: "PaymentStatus \<Rightarrow> string" where
  "status_string PENDING = ''pending''"
| "status_string SUCCEEDED = ''succeeded''"
| "status_string FAILED = ''failed''"
| "status_string CANCELED = ''canceled''"
| "status_string REFUNDED = ''refunded''"

definition confirmPayment ::
  "clock \<Rightarrow> string option \<Rightarrow> AuthUser option \<Rightarrow> string \<Rightarrow> state \<Rightarrow> (PaymentStatus \<times> string) response \<times> state" where
  "confirmPayment now paymentIntent_status req_user paymentIntentId st =
     (case req_user of
        None \<Rightarrow> (sendError 401 ''Authentication required'', st)
      | Some caller \<Rightarrow>
          (case PaymentModel_findByStripeId paymentIntentId (payments st) of
             None \<Rightarrow> (sendNotFound ''Payment'', st)
           | Some payment \<Rightarrow>
               if payment_userId payment \<noteq> userId caller
               then (sendError 403 ''Access denied'', st)
               else
                 (case stripeService_confirmPayment paymentIntent_status of
                    None \<Rightarrow> (sendError 500 ''Failed to confirm payment'', st)
                  | Some paymentStatus \<Rightarrow>
                      (let (updated, payments') =
                             PaymentModel_update now (payment_id payment) (Some paymentStatus) (payments st);
                           st' = st\<lparr> payments := payments' \<rparr>
                       in if paymentStatus = SUCCEEDED
                          then (sendSuccess (paymentStatus, payment_courseId payment)
                                  ''Payment confirmed successfully'', st')
                          else (sendError 400 (''Payment '' @ status_string paymentStatus), st')))))"

text \<open>\<open>amount\<close> and \<open>reason\<close> of the refund request go to Stripe only and are not modelled.\<close>

definition refundPayment ::
  "clock \<Rightarrow> string option \<Rightarrow> AuthUser option \<Rightarrow> string \<Rightarrow> state \<Rightarrow> unit response \<times> state" where
  "refundPayment now refund_status req_user paymentIntentId st =
     (case req_user of
        None \<Rightarrow> (sendError 401 ''Authentication required'', st)
      | Some caller \<Rightarrow>
          (case PaymentModel_findByStripeId paymentIntentId (payments st) of
             None \<Rightarrow> (sendNotFound ''Payment'', st)
           | Some payment \<Rightarrow>
               if payment_userId payment \<noteq> userId caller \<and> role caller \<noteq> ADMIN
               then (sendError 403 ''Access denied'', st)
               else if payment_status payment \<noteq> SUCCEEDED
               then (sendBadRequest ''Only successful payments can be refunded'', st)
               else
                 (case stripeService_refundPayment refund_status of
                    None \<Rightarrow> (sendError 500 ''Failed to process refund'', st)
                  | Some refundSuccess \<Rightarrow>
                      if refundSuccess
                      then (let (updated, payments') =
                                  PaymentModel_update now (payment_id payment) (Some REFUNDED) (payments st)
                            in (sendSuccess () ''Refund processed successfully'',
                                st\<lparr> payments := payments' \<rparr>))
                      else (sendError 500 ''Failed to process refund'', st))))"

text \<open>
  \<open>handleWebhook\<close> answers \<open>{ received: true }\<close> with status 200, or status 400 when the
  signature check throws.
\<close>

datatype WebhookResponse = received | verification_failed

fun webhook_statusCode :: "WebhookResponse \<Rightarrow> nat" where
  "webhook_statusCode received = 200"
| "webhook_statusCode verification_failed = 400"

definition webhook_set_status :: "clock \<Rightarrow> string \<Rightarrow> PaymentStatus \<Rightarrow> state \<Rightarrow> state" where
  "webhook_set_status now stripeId new_status st =
     (case PaymentModel_findByStripeId stripeId (payments st) of
        None \<Rightarrow> st
      | Some payment \<Rightarrow>
          st\<lparr> payments := snd (PaymentModel_update now (payment_id payment) (Some new_status) (payments st)) \<rparr>)"

definition handleWebhook :: "clock \<Rightarrow> StripeEvent option \<Rightarrow> state \<Rightarrow> WebhookResponse \<times> state" where
  "handleWebhook now constructed st =
     (case constructed of
        None \<Rightarrow> (verification_failed, st)
      | Some event \<Rightarrow>
          if event_type event = ''payment_intent.succeeded''
          then (received, webhook_set_status now (event_data_object_id event) SUCCEEDED st)
          else if event_type event = ''payment_intent.payment_failed''
          then (received, webhook_set_status now (event_data_object_id event) FAILED st)
          else (received, st))"

text \<open>
  The webhook route.  The application installs \<open>express.json()\<close> and
  \<open>express.urlencoded()\<close> for every route, before the payment routes, and the webhook
  route adds no parser of its own.  A request that reaches the handler therefore has
  \<open>req.body\<close> replaced by the object the parser built from the text of the request (a
  body the parser refuses is answered by the error handler and reaches no route); the
  text itself is not kept.  The handler passes \<open>req.body\<close> and the \<open>stripe-signature\<close>
  header to the service.
\<close>

definition express_json :: "string \<Rightarrow> Payload" where
  "express_json text = ParsedObject text"

definition route_handleWebhook ::
  "clock \<Rightarrow> bool \<Rightarrow> (string \<Rightarrow> string \<Rightarrow> StripeEvent option) \<Rightarrow> string \<Rightarrow> string \<Rightarrow> state \<Rightarrow>
     WebhookResponse \<times> state" where
  "route_handleWebhook now configured verify text signature st =
     handleWebhook now (stripeService_handleWebhook configured verify (express_json text) signature) st"

subsection \<open>Sequences of payment operations\<close>

text \<open>
  One confirm, refund or webhook request, with what Stripe answers to it, and the state
  after a list of them, each with the clock it reads.
\<close>

datatype PaymentOp =
    Confirm "string option" "AuthUser option" string
  | Refund "string option" "AuthUser option" string
  | Webhook "StripeEvent option"

fun payment_step :: "clock \<times> PaymentOp \<Rightarrow> state \<Rightarrow> state" where
  "payment_step (now, Confirm answer req_user paymentIntentId) st =
     snd (confirmPayment now answer req_user paymentIntentId st)"
| "payment_step (now, Refund answer req_user paymentIntentId) st =
     snd (refundPayment now answer req_user paymentIntentId st)"
| "payment_step (now, Webhook constructed) st =
     snd (handleWebhook now constructed st)"

fun payment_steps :: "(clock \<times> PaymentOp) list \<Rightarrow> state \<Rightarrow> state" where
  "payment_steps [] st = st"
| "payment_steps (op # ops) st = payment_steps ops (payment_step op st)"

definition status_of :: "string \<Rightarrow> state \<Rightarrow> PaymentStatus option" where
  "status_of ident st = map_option payment_status (PaymentModel_findById ident (payments st))"

section \<open>A small state of the process\<close>

text \<open>
  Five users (an admin, two instructors, two students), four courses of the first
  instructor (a free published one, two paid published ones, an unpublished one), a
  succeeded payment of the first student for a paid course and a pending payment of the
  second student.
\<close>

definition mk_user :: "string \<Rightarrow> string \<Rightarrow> UserRole \<Rightarrow> User" where
  "mk_user ident email r =
     \<lparr> user_id = ident, user_email = email, user_password = ''$2a$10$hash'',
       user_firstName = ''Jane'', user_lastName = ''Doe'', user_role = r,
       user_avatar = None, user_bio = Some [], user_skills = [],
       user_preferences = getDefaultPreferences, user_progress = [],
       user_createdAt = 1000, user_updatedAt = 1000 \<rparr>"

definition mk_course :: "string \<Rightarrow> string \<Rightarrow> number \<Rightarrow> bool \<Rightarrow> Course" where
  "mk_course ident owner p published =
     \<lparr> course_id = ident, course_title = ''Intro'', course_description = ''An introduction'',
       course_shortDescription = ''Intro'', course_instructorId = owner,
       course_instructorName = ''Jane Doe'', course_category = ''Programming'',
       course_subcategory = ''Web'', course_level = BEGINNER, course_price = p,
       course_currency = ''USD'', course_thumbnail = ''t.jpeg'', course_previewVideo = None,
       course_duration = 0, course_modules = [], course_requirements = [],
       course_learningOutcomes = [], course_tags = [], course_rating = 0,
       course_reviewCount = 0, course_enrollmentCount = 0, course_isPublished = published,
       course_createdAt = 1000, course_updatedAt = 1000 \<rparr>"

definition mk_payment :: "string \<Rightarrow> string \<Rightarrow> string \<Rightarrow> string \<Rightarrow> PaymentStatus \<Rightarrow> PaymentIntent" where
  "mk_payment ident stripeId uid courseId s =
     \<lparr> payment_id = ident, payment_amount = 4999, payment_currency = ''usd'',
       payment_status = s, payment_courseId = courseId, payment_userId = uid,
       payment_stripePaymentIntentId = stripeId,
       payment_createdAt = 1000, payment_updatedAt = 1000 \<rparr>"

definition admin1 :: AuthUser where
  "admin1 = \<lparr> userId = ''user_1'', auth_email = ''admin@skillforge.com'', role = ADMIN \<rparr>"

definition instructor1 :: AuthUser where
  "instructor1 = \<lparr> userId = ''user_2'', auth_email = ''instructor@skillforge.com'', role = INSTRUCTOR \<rparr>"

definition student1 :: AuthUser where
  "student1 = \<lparr> userId = ''user_3'', auth_email = ''student@skillforge.com'', role = STUDENT \<rparr>"

definition student2 :: AuthUser where
  "student2 = \<lparr> userId = ''user_4'', auth_email = ''other@skillforge.com'', role = STUDENT \<rparr>"

definition instructor2 :: AuthUser where
  "instructor2 = \<lparr> userId = ''user_5'', auth_email = ''second@skillforge.com'', role = INSTRUCTOR \<rparr>"

text \<open>The identity of an instructor token whose account is not in the store (it was deleted after the token was issued).\<close>

definition instructor3 :: AuthUser where
  "instructor3 = \<lparr> userId = ''user_6'', auth_email = ''gone@skillforge.com'', role = INSTRUCTOR \<rparr>"

definition state0 :: state where
  "state0 =
     \<lparr> users =
         [(''user_1'', mk_user ''user_1'' ''admin@skillforge.com'' ADMIN),
          (''user_2'', mk_user ''user_2'' ''instructor@skillforge.com'' INSTRUCTOR),
          (''user_3'', mk_user ''user_3'' ''student@skillforge.com'' STUDENT),
          (''user_4'', mk_user ''user_4'' ''other@skillforge.com'' STUDENT),
          (''user_5'', mk_user ''user_5'' ''second@skillforge.com'' INSTRUCTOR)],
       courses =
         [(''course_1'', mk_course ''course_1'' ''user_2'' 0 True),
          (''course_2'', mk_course ''course_2'' ''user_2'' (4999 / 100) True),
          (''course_3'', mk_course ''course_3'' ''user_2'' (2999 / 100) False),
          (''course_4'', mk_course ''course_4'' ''user_2'' (999 / 100) True)],
       payments =
         [(''payment_1'', mk_payment ''payment_1'' ''pi_1'' ''user_3'' ''course_2'' SUCCEEDED),
          (''payment_2'', mk_payment ''payment_2'' ''pi_2'' ''user_4'' ''course_2'' PENDING)] \<rparr>"

definition clock0 :: clock where
  "clock0 = (\<lambda>k. 2000 + k)"

text \<open>The record that \<open>enrollInCourse\<close> hands to \<open>UserModel.updateProgress\<close>.\<close>

definition enrolled_record :: "clock \<Rightarrow> string \<Rightarrow> CourseProgress" where
  "enrolled_record now ident =
     \<lparr> cp_courseId = ident, cp_enrolledAt = now 0, cp_completedModules = Some [],
       cp_currentModule = None, cp_progressPercentage = Some 0, cp_lastAccessedAt = now 1,
       cp_certificateEarned = None, cp_certificateUrl = None \<rparr>"

text \<open>The query of a plain \<open>GET /courses\<close>, and the ids of the courses a listing returns.\<close>

definition default_query :: ListQuery where
  "default_query =
     \<lparr> query_page = None, query_limit = None, query_filters = no_filters,
       query_sortBy = None, query_sortOrder = None \<rparr>"

definition listed_ids :: "(Course list \<times> PaginationInfo) response \<Rightarrow> string list" where
  "listed_ids r = (case r of sendSuccess d msg \<Rightarrow> map course_id (fst d) | sendError code msg \<Rightarrow> [])"

text \<open>Request bodies that pass validation.\<close>

definition example_create_body :: CreateCourseRequest where
  "example_create_body =
     \<lparr> create_title = ''Intro to HOL'',
       create_description = ''A first course on higher-order logic and on proving programs correct.'',
       create_shortDescription = ''Higher-order logic for programmers'',
       create_category = ''Programming'',
       create_subcategory = ''Verification'',
       create_level = BEGINNER,
       create_price = 0,
       create_requirements = [],
       create_learningOutcomes = [''Write a proof''],
       create_tags = [''logic''] \<rparr>"

text \<open>The same body with a price outside the safe range of \<open>Joi.number()\<close>.\<close>

definition unsafe_price_body :: CreateCourseRequest where
  "unsafe_price_body = example_create_body\<lparr> create_price := 10 ^ 20 \<rparr>"

definition example_update_body :: UpdateCourseRequest where
  "example_update_body =
     \<lparr> update_title = Some ''A new title'', update_description = None,
       update_shortDescription = None, update_category = None, update_subcategory = None,
       update_level = None, update_price = Some 5, update_requirements = None,
       update_learningOutcomes = None, update_tags = None \<rparr>"

definition example_signup :: SignupRequest where
  "example_signup =
     \<lparr> signup_email = ''a@x.com'', signup_password = ''secret1'',
       signup_firstName = ''A'', signup_lastName = ''B'', signup_role = None \<rparr>"

definition example_signup_env :: SignupEnv where
  "example_signup_env =
     \<lparr> env_hashedPassword = Some ''$2a$12$hash'', env_newId = ''user_9'',
       env_tokens = Some (''access'', ''refresh'') \<rparr>"

section \<open>Notions the properties are stated with\<close>

text \<open>A payment store with every \<open>updatedAt\<close> blanked: what two stores share when they differ in update timestamps only.\<close>

definition forget_updatedAt :: "PaymentIntent store \<Rightarrow> PaymentIntent store" where
  "forget_updatedAt m = map (\<lambda>e. (fst e, (snd e)\<lparr> payment_updatedAt := 0 \<rparr>)) m"

text \<open>The keys, ids and Stripe ids of a payment store, in order: what no payment operation changes.\<close>

definition skeleton :: "PaymentIntent store \<Rightarrow> (string \<times> string \<times> string) list" where
  "skeleton m = map (\<lambda>e. (fst e, payment_id (snd e), payment_stripePaymentIntentId (snd e))) m"

text \<open>
  The key of the payment a confirm, refund or webhook request writes to, if any: the id
  of the first payment with the Stripe id of the request.
\<close>

fun op_target :: "PaymentOp \<Rightarrow> state \<Rightarrow> string option" where
  "op_target (Confirm answer req_user paymentIntentId) st =
     map_option payment_id (PaymentModel_findByStripeId paymentIntentId (payments st))"
| "op_target (Refund answer req_user paymentIntentId) st =
     map_option payment_id (PaymentModel_findByStripeId paymentIntentId (payments st))"
| "op_target (Webhook None) st = None"
| "op_target (Webhook (Some event)) st =
     map_option payment_id (PaymentModel_findByStripeId (event_data_object_id event) (payments st))"

text \<open>
  A request to which Stripe reports something other than success: a confirm whose
  retrieved status maps to a status other than \<open>SUCCEEDED\<close>, or a
  \<open>payment_intent.payment_failed\<close> event.
\<close>

fun reports_regress :: "PaymentOp \<Rightarrow> bool" where
  "reports_regress (Confirm answer req_user paymentIntentId) =
     (case stripeService_confirmPayment answer of None \<Rightarrow> False | Some s \<Rightarrow> s \<noteq> SUCCEEDED)"
| "reports_regress (Refund answer req_user paymentIntentId) = False"
| "reports_regress (Webhook None) = False"
| "reports_regress (Webhook (Some event)) = (event_type event = ''payment_intent.payment_failed'')"

text \<open>A request spares a payment when it reports no regress or writes to another payment.\<close>

definition spares :: "string \<Rightarrow> state \<Rightarrow> clock \<times> PaymentOp \<Rightarrow> bool" where
  "spares ident st timed_op =
     (\<not> reports_regress (snd timed_op) \<or> op_target (snd timed_op) st \<noteq> Some ident)"

definition settled :: "PaymentStatus option \<Rightarrow> bool" where
  "settled s = (s = Some SUCCEEDED \<or> s = Some REFUNDED)"

definition succeeded_event :: "string \<Rightarrow> StripeEvent" where
  "succeeded_event sid = \<lparr> event_type = ''payment_intent.succeeded'', event_data_object_id = sid \<rparr>"

definition failed_event :: "string \<Rightarrow> StripeEvent" where
  "failed_event sid = \<lparr> event_type = ''payment_intent.payment_failed'', event_data_object_id = sid \<rparr>"

text \<open>
  The check of a delivery that Stripe signed, on the raw text: it passes and yields the
  event, here \<open>payment_intent.succeeded\<close> for \<open>pi_2\<close>.
\<close>

definition stripe_signed :: "string \<Rightarrow> string \<Rightarrow> StripeEvent option" where
  "stripe_signed text signature = Some (succeeded_event ''pi_2'')"

definition clock1 :: clock where
  "clock1 = (\<lambda>k. 3000 + k)"

definition example_ops :: "(clock \<times> PaymentOp) list" where
  "example_ops =
     [(clock0, Webhook (Some (succeeded_event ''pi_1''))),
      (clock0, Webhook (Some (failed_event ''pi_2''))),
      (clock0, Confirm (Some ''processing'') (Some student2) ''pi_2''),
      (clock1, Refund (Some ''succeeded'') (Some student1) ''pi_1'')]"

section \<open>Properties of the stores\<close>

lemma Map_get_Map_set: "Map_get k' (Map_set k v m) = (if k' = k then Some v else Map_get k' m)"
  by (induction m) (auto simp: Map_get_def)

lemma Map_has_iff: "Map_has k m \<longleftrightarrow> Map_get k m \<noteq> None"
  by (induction m) (auto simp: Map_get_def Map_has_def)

lemma Map_get_delete: "Map_get k' (fst (Map_delete k m)) = (if k' = k then None else Map_get k' m)"
  by (induction m) (auto simp: Map_get_def Map_delete_def)

lemma Map_set_fresh: "\<not> Map_has k m \<Longrightarrow> Map_set k v m = m @ [(k, v)]"
  by (induction m) (auto simp: Map_has_def)

lemma findIndex_None: "findIndex P xs = None \<longleftrightarrow> find P xs = None"
  by (induction xs) auto

lemma find_None_filter: "find P xs = None \<longleftrightarrow> filter P xs = []"
  by (induction xs) auto

text \<open>The definitions a concrete request is evaluated with.\<close>

lemmas eval_defs =
  route_enrollInCourse_def authenticate_def idParamSchema_def Joi_string_any_def
  enrollInCourse_def enroll_user_def CourseModel_findById_def UserModel_findById_def
  UserModel_updateProgress_def updateProgress_reads_def CourseModel_incrementEnrollment_def
  PaymentModel_findByStripeId_def PaymentModel_findSuccessfulPayment_def
  Map_get_def Map_values_def truthy_string_def
  spread_CourseProgress_def spread_def later_def
  state0_def clock0_def mk_user_def mk_course_def mk_payment_def
  student1_def student2_def instructor1_def instructor2_def admin1_def

section \<open>Account deletion\<close>

text \<open>
  C9.  For an authenticated caller, account deletion removes the caller's record from
  the user store and no other: afterwards the caller's id is not found and every other
  id is found as before.  It succeeds exactly when the record existed (and answers 404
  otherwise), and it leaves the course store and the payment store as they were, so
  courses and payments that refer to the deleted user stay.
\<close>

theorem deleteAccount_frame:
  assumes "route_deleteAccount (Token caller) st = (r, st')"
  shows "courses st' = courses st \<and> payments st' = payments st \<and>
         UserModel_findById (userId caller) (users st') = None \<and>
         (\<forall>k. k \<noteq> userId caller \<longrightarrow> UserModel_findById k (users st') = UserModel_findById k (users st)) \<and>
         (success r \<longleftrightarrow> UserModel_findById (userId caller) (users st) \<noteq> None) \<and>
         (\<not> success r \<longrightarrow> statusCode r = 404)"
  using assms Map_get_delete[of _ "userId caller" "users st"] Map_has_iff[of "userId caller" "users st"]
  by (auto simp: route_deleteAccount_def authenticate_def deleteAccount_def UserModel_delete_def
      UserModel_findById_def sendNotFound_def Map_delete_def split: if_splits prod.splits)

theorem deleteAccount_frame_witness:
  "route_deleteAccount (Token student1) state0 =
     (sendSuccess () ''Account deleted successfully'',
      state0\<lparr> users := filter (\<lambda>e. fst e \<noteq> ''user_3'') (users state0) \<rparr>) \<and>
   UserModel_findById ''user_3'' (filter (\<lambda>e. fst e \<noteq> ''user_3'') (users state0)) = None \<and>
   UserModel_findById ''user_3'' (users state0) \<noteq> None \<and>
   payments (state0\<lparr> users := filter (\<lambda>e. fst e \<noteq> ''user_3'') (users state0) \<rparr>) = payments state0"
  using deleteAccount_frame[of student1 state0 "sendSuccess () ''Account deleted successfully''"
      "state0\<lparr> users := filter (\<lambda>e. fst e \<noteq> ''user_3'') (users state0) \<rparr>"]
  by (simp add: route_deleteAccount_def authenticate_def deleteAccount_def UserModel_delete_def
      UserModel_findById_def Map_delete_def Map_has_def Map_get_def state0_def student1_def)

section \<open>The progress endpoint\<close>

lemma updateProgress_push:
  assumes "Map_get uid us = Some user"
      and "find (\<lambda>p. cp_courseId p = courseId) (user_progress user) = None"
  shows "UserModel_updateProgress now uid courseId progress us =
           (Map_set uid
              (user\<lparr> user_progress := user_progress user @
                       [spread_CourseProgress
                          \<lparr> cp_courseId = courseId, cp_enrolledAt = now 0,
                            cp_completedModules = Some [], cp_currentModule = None,
                            cp_progressPercentage = Some 0, cp_lastAccessedAt = now 1,
                            cp_certificateEarned = None, cp_certificateUrl = None \<rparr> progress],
                     user_updatedAt := now 2 \<rparr>) us, True)"
proof -
  from assms(2) have "findIndex (\<lambda>p. cp_courseId p = courseId) (user_progress user) = None"
    by (simp add: findIndex_None)
  with assms(1) show ?thesis
    by (simp add: UserModel_updateProgress_def)
qed

text \<open>
  C10.  For an existing user and a course id for which the user has no progress
  record, \<open>PUT /users/progress/:courseId\<close> answers success and appends a new
  \<open>CourseProgress\<close> record for that course to the user's progress list.  Nothing is
  required of the course store or the payment store (the course need not exist, be
  published or be paid for), and both are left as they were: \<open>enrollmentCount\<close> is not
  incremented.
\<close>

theorem updateProgress_creates_record:
  assumes "UserModel_findById (userId caller) (users st) = Some user"
      and "find (\<lambda>p. cp_courseId p = courseId) (user_progress user) = None"
  shows "\<exists>st' user'.
           route_updateProgress now (Token caller) courseId body st =
             (sendSuccess () ''Progress updated successfully'', st') \<and>
           UserModel_findById (userId caller) (users st') = Some user' \<and>
           user_progress user' = user_progress user @
             [\<lparr> cp_courseId = courseId, cp_enrolledAt = now 1,
                cp_completedModules = body_completedModules body,
                cp_currentModule = body_currentModule body,
                cp_progressPercentage = body_progressPercentage body,
                cp_lastAccessedAt = now 0,
                cp_certificateEarned = None, cp_certificateUrl = None \<rparr>] \<and>
           courses st' = courses st \<and> payments st' = payments st"
proof -
  from assms have g: "Map_get (userId caller) (users st) = Some user"
    by (simp add: UserModel_findById_def)
  show ?thesis
    by (simp add: route_updateProgress_def authenticate_def updateProgress_def
        updateProgress_push[OF g assms(2)] UserModel_findById_def Map_get_Map_set
        spread_CourseProgress_def spread_def later_def)
qed

theorem updateProgress_creates_record_witness:
  "UserModel_findById (userId student1) (users state0) = Some (mk_user ''user_3'' ''student@skillforge.com'' STUDENT) \<and>
   find (\<lambda>p. cp_courseId p = ''no_such_course'')
     (user_progress (mk_user ''user_3'' ''student@skillforge.com'' STUDENT)) = None \<and>
   CourseModel_findById ''no_such_course'' (courses state0) = None \<and>
   (\<exists>st'. route_updateProgress clock0 (Token student1) ''no_such_course''
        \<lparr> body_completedModules = None, body_currentModule = None, body_progressPercentage = Some 100 \<rparr> state0 =
          (sendSuccess () ''Progress updated successfully'', st') \<and>
      map_option (map cp_courseId \<circ> user_progress) (UserModel_findById ''user_3'' (users st')) = Some [''no_such_course''] \<and>
      courses st' = courses state0)"
proof -
  have h1: "UserModel_findById (userId student1) (users state0) = Some (mk_user ''user_3'' ''student@skillforge.com'' STUDENT)"
    by (simp add: UserModel_findById_def Map_get_def state0_def student1_def)
  have h2: "find (\<lambda>p. cp_courseId p = ''no_such_course'')
     (user_progress (mk_user ''user_3'' ''student@skillforge.com'' STUDENT)) = None"
    by (simp add: mk_user_def)
  have h3: "CourseModel_findById ''no_such_course'' (courses state0) = None"
    by (simp add: CourseModel_findById_def Map_get_def state0_def)
  from updateProgress_creates_record[OF h1 h2, of clock0
      "\<lparr> body_completedModules = None, body_currentModule = None, body_progressPercentage = Some 100 \<rparr>"]
  obtain st' user' where
    "route_updateProgress clock0 (Token student1) ''no_such_course''
        \<lparr> body_completedModules = None, body_currentModule = None, body_progressPercentage = Some 100 \<rparr> state0 =
          (sendSuccess () ''Progress updated successfully'', st')"
    "UserModel_findById (userId student1) (users st') = Some user'"
    "user_progress user' = user_progress (mk_user ''user_3'' ''student@skillforge.com'' STUDENT) @
             [\<lparr> cp_courseId = ''no_such_course'', cp_enrolledAt = clock0 1,
                cp_completedModules = None,
                cp_currentModule = None,
                cp_progressPercentage = Some 100,
                cp_lastAccessedAt = clock0 0,
                cp_certificateEarned = None, cp_certificateUrl = None \<rparr>]"
    "courses st' = courses state0"
    by auto
  then show ?thesis using h1 h2 h3
    by (auto simp: student1_def mk_user_def)
qed

section \<open>Enrollment\<close>

lemma enroll_user_effect:
  assumes "Map_get uid (users st) = Some user"
      and "find (\<lambda>p. cp_courseId p = ident) (user_progress user) = None"
      and "Map_get ident (courses st) = Some course"
  shows "enroll_user now uid ident st =
           (sendSuccess () ''Enrolled in course successfully'',
            st\<lparr> users := Map_set uid
                    (user\<lparr> user_progress := user_progress user @ [enrolled_record now ident],
                           user_updatedAt := now 4 \<rparr>) (users st),
                courses := Map_set ident
                    (course\<lparr> course_enrollmentCount := course_enrollmentCount course + 1,
                             course_updatedAt := now 5 \<rparr>) (courses st) \<rparr>)"
proof -
  from assms(1,2) have "updateProgress_reads uid ident (users st) = 3"
    by (simp add: updateProgress_reads_def findIndex_None[symmetric])
  then show ?thesis
    by (simp add: enroll_user_def updateProgress_push[OF assms(1,2)] CourseModel_incrementEnrollment_def
        assms(3) spread_CourseProgress_def spread_def later_def enrolled_record_def)
qed

lemma enrollInCourse_success:
  assumes "enrollInCourse now (Some caller) ident paymentIntentId st = (r, st')" and "success r"
  shows "\<exists>user course.
           Map_get (userId caller) (users st) = Some user \<and>
           find (\<lambda>p. cp_courseId p = ident) (user_progress user) = None \<and>
           Map_get ident (courses st) = Some course \<and> course_isPublished course \<and>
           enroll_user now (userId caller) ident st = (r, st')"
  using assms
  by (auto simp: enrollInCourse_def CourseModel_findById_def UserModel_findById_def
      sendNotFound_def sendForbidden_def split: option.splits if_splits)

lemma enrollInCourse_conflict:
  assumes "Map_get (userId caller) (users st) = Some user"
      and "find (\<lambda>p. cp_courseId p = ident) (user_progress user) \<noteq> None"
      and "Map_get ident (courses st) = Some course" and "course_isPublished course"
  shows "enrollInCourse now (Some caller) ident paymentIntentId st =
           (sendError 409 ''Already enrolled in this course'', st)"
  using assms
  by (auto simp: enrollInCourse_def CourseModel_findById_def UserModel_findById_def)

text \<open>
  C4.  After a successful enroll call the caller's progress list holds exactly one
  \<open>CourseProgress\<close> record for the course, and a repeated enroll call for the same
  course (at any time, with any payment reference) answers 409 and leaves the whole
  state, and with it that record, as it was.
\<close>

theorem enroll_once:
  assumes "route_enrollInCourse now (Token caller) ident paymentIntentId st = (r, st')"
      and "success r"
  shows "\<exists>user'.
           UserModel_findById (userId caller) (users st') = Some user' \<and>
           length (filter (\<lambda>p. cp_courseId p = ident) (user_progress user')) = 1 \<and>
           route_enrollInCourse now' (Token caller) ident paymentIntentId' st' =
             (sendError 409 ''Already enrolled in this course'', st')"
proof -
  from assms have valid: "idParamSchema ident"
    and e: "enrollInCourse now (Some caller) ident paymentIntentId st = (r, st')"
    by (auto simp: route_enrollInCourse_def authenticate_def validation_failed_def split: if_splits)
  from enrollInCourse_success[OF e assms(2)] obtain user course where
    u: "Map_get (userId caller) (users st) = Some user" and
    f: "find (\<lambda>p. cp_courseId p = ident) (user_progress user) = None" and
    c: "Map_get ident (courses st) = Some course" and p: "course_isPublished course" and
    eu: "enroll_user now (userId caller) ident st = (r, st')"
    by blast
  let ?user' = "user\<lparr> user_progress := user_progress user @ [enrolled_record now ident],
                           user_updatedAt := now 4 \<rparr>"
  let ?course' = "course\<lparr> course_enrollmentCount := course_enrollmentCount course + 1,
                             course_updatedAt := now 5 \<rparr>"
  from eu enroll_user_effect[OF u f c, of now]
  have st': "st' = st\<lparr> users := Map_set (userId caller) ?user' (users st),
                courses := Map_set ident ?course' (courses st) \<rparr>"
    by simp
  have u': "Map_get (userId caller) (users st') = Some ?user'"
    by (simp add: st' Map_get_Map_set)
  have c': "Map_get ident (courses st') = Some ?course'"
    by (simp add: st' Map_get_Map_set)
  from f have "filter (\<lambda>p. cp_courseId p = ident) (user_progress user) = []"
    by (simp add: find_None_filter)
  then have one: "length (filter (\<lambda>p. cp_courseId p = ident) (user_progress ?user')) = 1"
    by (simp add: enrolled_record_def)
  then have "filter (\<lambda>p. cp_courseId p = ident) (user_progress ?user') \<noteq> []"
    by auto
  then have f': "find (\<lambda>p. cp_courseId p = ident) (user_progress ?user') \<noteq> None"
    by (simp only: find_None_filter not_False_eq_True)
  have "course_isPublished ?course'" using p by simp
  from enrollInCourse_conflict[OF u' f' c' this]
  have "route_enrollInCourse now' (Token caller) ident paymentIntentId' st' =
             (sendError 409 ''Already enrolled in this course'', st')"
    using valid by (simp add: route_enrollInCourse_def authenticate_def)
  with u' one show ?thesis
    by (auto simp: UserModel_findById_def)
qed

theorem enroll_once_witness:
  "\<exists>st'. route_enrollInCourse clock0 (Token student1) ''course_1'' None state0 =
            (sendSuccess () ''Enrolled in course successfully'', st') \<and>
         success (sendSuccess () ''Enrolled in course successfully'' :: unit response) \<and>
         (\<exists>user'. UserModel_findById (userId student1) (users st') = Some user' \<and>
            length (filter (\<lambda>p. cp_courseId p = ''course_1'') (user_progress user')) = 1 \<and>
            route_enrollInCourse clock0 (Token student1) ''course_1'' None st' =
              (sendError 409 ''Already enrolled in this course'', st'))"
proof -
  obtain st' where h: "route_enrollInCourse clock0 (Token student1) ''course_1'' None state0 =
            (sendSuccess () ''Enrolled in course successfully'', st')"
    by (simp add: eval_defs)
  have s: "success (sendSuccess () ''Enrolled in course successfully'' :: unit response)" by simp
  from enroll_once[OF h s, of clock0 None] h s show ?thesis by blast
qed

text \<open>
  C1.  The paid path of \<open>enrollInCourse\<close> looks the payment up by the Stripe id of the
  request and tests its status only.  In \<open>state0\<close> the payment \<open>pi_1\<close> is a
  succeeded payment of \<open>user_3\<close> for \<open>course_2\<close>; \<open>findSuccessfulPayment\<close> finds no
  payment of \<open>user_4\<close> for the paid \<open>course_4\<close>.  Still \<open>user_4\<close>, enrolling in
  \<open>course_4\<close> with \<open>pi_1\<close>, is enrolled: the progress record is written and
  \<open>enrollmentCount\<close> goes from 0 to 1.
\<close>

theorem enroll_accepts_foreign_payment:
  "PaymentModel_findSuccessfulPayment ''user_4'' ''course_4'' (payments state0) = None \<and>
   map_option (\<lambda>p. (payment_userId p, payment_courseId p, payment_status p))
     (PaymentModel_findByStripeId ''pi_1'' (payments state0)) = Some (''user_3'', ''course_2'', SUCCEEDED) \<and>
   map_option course_price (CourseModel_findById ''course_4'' (courses state0)) = Some (999 / 100) \<and>
   fst (route_enrollInCourse clock0 (Token student2) ''course_4'' (Some ''pi_1'') state0) =
     sendSuccess () ''Enrolled in course successfully'' \<and>
   map_option (map cp_courseId \<circ> user_progress)
     (UserModel_findById ''user_4''
        (users (snd (route_enrollInCourse clock0 (Token student2) ''course_4'' (Some ''pi_1'') state0)))) =
     Some [''course_4''] \<and>
   map_option course_enrollmentCount
     (CourseModel_findById ''course_4''
        (courses (snd (route_enrollInCourse clock0 (Token student2) ''course_4'' (Some ''pi_1'') state0)))) =
     Some 1"
  by (simp add: eval_defs)

section \<open>Visibility of unpublished courses\<close>

lemma set_sort_insert: "set (sort_insert cmp x xs) = insert x (set xs)"
  by (induction xs) auto

lemma set_Array_sort: "set (Array_sort cmp xs) = set xs"
  by (induction xs) (auto simp: Array_sort_def set_sort_insert)

text \<open>
  What the two handlers do with an unpublished course, in every state: detail retrieval
  succeeds for an admin and for the caller whose id is the course's \<open>instructorId\<close>, and
  for nobody else; a listing contains an unpublished course for an admin only.
\<close>

lemma findAll_unpublished:
  assumes "c \<in> set (CourseModel_findAll filters cs)" and "\<not> course_isPublished c"
  shows "filter_includeUnpublished filters = Some True"
proof (rule ccontr)
  assume "filter_includeUnpublished filters \<noteq> Some True"
  with assms(1) have "course_isPublished c"
    unfolding CourseModel_findAll_def Let_def
    by (simp only: not_False_eq_True if_True set_filter mem_Collect_eq)
  with assms(2) show False by simp
qed

lemma set_Array_slice: "set (Array_slice xs a b) \<subseteq> set xs"
proof -
  have "set (take n (drop k xs)) \<subseteq> set xs" for n k
    using set_take_subset[of n "drop k xs"] set_drop_subset[of k xs] by blast
  then show ?thesis by (simp add: Array_slice_def Let_def)
qed

lemma listing_unpublished_admin_only:
  assumes "getAllCourses req_user query st = sendSuccess (page_courses, pagination) msg"
      and "c \<in> set page_courses" and "\<not> course_isPublished c"
  shows "map_option role req_user = Some ADMIN"
proof -
  let ?filters = "(query_filters query)
       \<lparr> filter_includeUnpublished := Some (map_option role req_user = Some ADMIN) \<rparr>"
  define found where "found = CourseModel_findAll ?filters (courses st)"
  from assms(1) have "\<exists>cmp a b. page_courses = Array_slice (Array_sort cmp found) a b"
    unfolding getAllCourses_def Let_def found_def by blast
  then obtain cmp a b where "page_courses = Array_slice (Array_sort cmp found) a b"
    by blast
  with assms(2) set_Array_slice[of "Array_sort cmp found" a b] have "c \<in> set found"
    by (auto simp: set_Array_sort)
  from findAll_unpublished[OF this[unfolded found_def] assms(3)] show ?thesis by simp
qed

lemma detail_unpublished:
  assumes "CourseModel_findById ident (courses st) = Some course" and "\<not> course_isPublished course"
  shows "success (getCourseById req_user ident st) \<longleftrightarrow>
           (map_option role req_user = Some ADMIN \<or>
            map_option userId req_user = Some (course_instructorId course))"
  using assms by (auto simp: getCourseById_def sendForbidden_def Let_def)

text \<open>
  C5.  \<open>course_3\<close> of \<open>state0\<close> is unpublished and owned by the instructor \<open>user_2\<close>.
  Detail retrieval shows it to its owner and refuses a student and an anonymous caller
  with 403.  The listing passes \<open>includeUnpublished\<close> for an admin only: the owner's
  listing does not contain \<open>course_3\<close> (it does contain the published \<open>course_1\<close>),
  the admin's listing does.
\<close>

theorem listing_hides_own_unpublished_course:
  "map_option (\<lambda>c. (course_isPublished c, course_instructorId c))
     (CourseModel_findById ''course_3'' (courses state0)) = Some (False, ''user_2'') \<and>
   userId instructor1 = ''user_2'' \<and> role instructor1 = INSTRUCTOR \<and>
   success (route_getCourseById (Token instructor1) ''course_3'' state0) \<and>
   ''course_3'' \<notin> set (listed_ids (route_getAllCourses (Token instructor1) default_query state0)) \<and>
   ''course_1'' \<in> set (listed_ids (route_getAllCourses (Token instructor1) default_query state0)) \<and>
   ''course_3'' \<in> set (listed_ids (route_getAllCourses (Token admin1) default_query state0)) \<and>
   statusCode (route_getCourseById (Token student1) ''course_3'' state0) = 403 \<and>
   statusCode (route_getCourseById NoToken ''course_3'' state0) = 403"
  by (intro conjI) code_simp+

section \<open>Authorization of course creation and update\<close>

lemma requireInstructorOrAdmin_passes:
  "role caller = INSTRUCTOR \<or> role caller = ADMIN \<Longrightarrow>
     requireInstructorOrAdmin (Some caller) = None"
  by (auto simp: requireInstructorOrAdmin_def)

lemma requireInstructorOrAdmin_student:
  "role caller = STUDENT \<Longrightarrow>
     requireInstructorOrAdmin (Some caller) = Some (sendError 403 ''Instructor or admin access required'')"
  by (simp add: requireInstructorOrAdmin_def sendForbidden_def)

lemma createCourse_stores:
  fixes newId :: string and now :: clock and body :: CreateCourseRequest
  assumes "UserModel_findById (userId caller) (users st) = Some instructor"
  defines "created \<equiv>
      \<lparr> course_id = newId,
        course_title = create_title body,
        course_description = create_description body,
        course_shortDescription = create_shortDescription body,
        course_instructorId = userId caller,
        course_instructorName = user_firstName instructor @ '' '' @ user_lastName instructor,
        course_category = create_category body,
        course_subcategory = create_subcategory body,
        course_level = create_level body,
        course_price = create_price body,
        course_currency = ''USD'',
        course_thumbnail = ''https://images.pexels.com/photos/270348/pexels-photo-270348.jpeg'',
        course_previewVideo = None,
        course_duration = 0,
        course_modules = [],
        course_requirements = create_requirements body,
        course_learningOutcomes = create_learningOutcomes body,
        course_tags = create_tags body,
        course_rating = 0,
        course_reviewCount = 0,
        course_enrollmentCount = 0,
        course_isPublished = False,
        course_createdAt = now 0,
        course_updatedAt = now 0 \<rparr>"
  shows "createCourse newId now (Some caller) body st =
           (sendSuccess created ''Course created successfully'',
            st\<lparr> courses := Map_set newId created (courses st) \<rparr>)"
  using assms(1) by (simp add: createCourse_def CourseModel_create_def created_def Let_def)

lemma updateCourse_stores:
  fixes now :: clock and ubody :: UpdateCourseRequest
  assumes "CourseModel_findById ident (courses st) = Some course"
      and "course_instructorId course = userId caller \<or> role caller = ADMIN"
  defines "updated \<equiv>
      course\<lparr> course_title := spread (course_title course) (update_title ubody),
              course_description := spread (course_description course) (update_description ubody),
              course_shortDescription := spread (course_shortDescription course) (update_shortDescription ubody),
              course_category := spread (course_category course) (update_category ubody),
              course_subcategory := spread (course_subcategory course) (update_subcategory ubody),
              course_level := spread (course_level course) (update_level ubody),
              course_price := spread (course_price course) (update_price ubody),
              course_requirements := spread (course_requirements course) (update_requirements ubody),
              course_learningOutcomes := spread (course_learningOutcomes course) (update_learningOutcomes ubody),
              course_tags := spread (course_tags course) (update_tags ubody),
              course_updatedAt := now 0 \<rparr>"
  shows "updateCourse now (Some caller) ident ubody st =
           (sendSuccess updated ''Course updated successfully'',
            st\<lparr> courses := Map_set ident updated (courses st) \<rparr>)"
proof -
  have "(spread_Course course (updates_of_request ubody))\<lparr> course_updatedAt := now 0 \<rparr> = updated"
    by (cases course)
       (simp add: spread_Course_def updates_of_request_def no_updates_def spread_def updated_def)
  with assms(1,2) show ?thesis
    by (auto simp: updateCourse_def CourseModel_update_def CourseModel_findById_def Let_def)
qed

lemma updateCourse_refuses:
  assumes "CourseModel_findById ident (courses st) = Some course"
      and "course_instructorId course \<noteq> userId caller" and "role caller \<noteq> ADMIN"
  shows "updateCourse now (Some caller) ident ubody st =
           (sendError 403 ''You can only update your own courses'', st)"
  using assms by (simp add: updateCourse_def sendForbidden_def)

text \<open>
  C8 (as amended).  Course creation answers 403 to a Student (and so does course
  update).  To an Instructor or an Admin it never answers 403: it answers 400 when the
  body fails validation, 404 when the caller's account is not in the user store, and
  otherwise succeeds, returning and storing under the new id the course built from the
  body, owned by the caller and unpublished.  For an existing course and a request that
  passes validation, update by an Instructor who is not the course's instructor answers
  403 and changes nothing; update by the course's Instructor or by an Admin succeeds,
  returning and storing the course with the fields of the body merged in and
  \<open>updatedAt\<close> set to the clock reading.
\<close>

theorem course_authorization:
  defines "created \<equiv> \<lambda>newId now caller instructor body.
      \<lparr> course_id = newId,
        course_title = create_title body,
        course_description = create_description body,
        course_shortDescription = create_shortDescription body,
        course_instructorId = userId caller,
        course_instructorName = user_firstName instructor @ '' '' @ user_lastName instructor,
        course_category = create_category body,
        course_subcategory = create_subcategory body,
        course_level = create_level body,
        course_price = create_price body,
        course_currency = ''USD'',
        course_thumbnail = ''https://images.pexels.com/photos/270348/pexels-photo-270348.jpeg'',
        course_previewVideo = None,
        course_duration = 0,
        course_modules = [],
        course_requirements = create_requirements body,
        course_learningOutcomes = create_learningOutcomes body,
        course_tags = create_tags body,
        course_rating = 0,
        course_reviewCount = 0,
        course_enrollmentCount = 0,
        course_isPublished = False,
        course_createdAt = now 0,
        course_updatedAt = now 0 \<rparr>"
      and "updated \<equiv> \<lambda>now course ubody.
      course\<lparr> course_title := spread (course_title course) (update_title ubody),
              course_description := spread (course_description course) (update_description ubody),
              course_shortDescription := spread (course_shortDescription course) (update_shortDescription ubody),
              course_category := spread (course_category course) (update_category ubody),
              course_subcategory := spread (course_subcategory course) (update_subcategory ubody),
              course_level := spread (course_level course) (update_level ubody),
              course_price := spread (course_price course) (update_price ubody),
              course_requirements := spread (course_requirements course) (update_requirements ubody),
              course_learningOutcomes := spread (course_learningOutcomes course) (update_learningOutcomes ubody),
              course_tags := spread (course_tags course) (update_tags ubody),
              course_updatedAt := now 0 \<rparr>"
  shows
  "(role caller = STUDENT \<longrightarrow>
      route_createCourse newId now (Token caller) body st =
        (sendError 403 ''Instructor or admin access required'', st) \<and>
      route_updateCourse now (Token caller) ident ubody st =
        (sendError 403 ''Instructor or admin access required'', st)) \<and>
   (role caller = INSTRUCTOR \<or> role caller = ADMIN \<longrightarrow>
      (\<not> createCourseSchema body \<longrightarrow>
         route_createCourse newId now (Token caller) body st =
           (sendError 400 ''Validation failed'', st)) \<and>
      (createCourseSchema body \<and> UserModel_findById (userId caller) (users st) = None \<longrightarrow>
         route_createCourse newId now (Token caller) body st =
           (sendError 404 ''Instructor not found'', st)) \<and>
      (createCourseSchema body \<and> UserModel_findById (userId caller) (users st) = Some instructor \<longrightarrow>
         route_createCourse newId now (Token caller) body st =
           (sendSuccess (created newId now caller instructor body) ''Course created successfully'',
            st\<lparr> courses := Map_set newId (created newId now caller instructor body) (courses st) \<rparr>) \<and>
         CourseModel_findById newId
           (Map_set newId (created newId now caller instructor body) (courses st)) =
           Some (created newId now caller instructor body))) \<and>
   (CourseModel_findById ident (courses st) = Some course \<and> idParamSchema ident \<and>
    updateCourseSchema ubody \<longrightarrow>
      (role caller = INSTRUCTOR \<and> userId caller \<noteq> course_instructorId course \<longrightarrow>
         route_updateCourse now (Token caller) ident ubody st =
           (sendError 403 ''You can only update your own courses'', st)) \<and>
      ((role caller = INSTRUCTOR \<and> userId caller = course_instructorId course) \<or> role caller = ADMIN \<longrightarrow>
         route_updateCourse now (Token caller) ident ubody st =
           (sendSuccess (updated now course ubody) ''Course updated successfully'',
            st\<lparr> courses := Map_set ident (updated now course ubody) (courses st) \<rparr>) \<and>
         CourseModel_findById ident (Map_set ident (updated now course ubody) (courses st)) =
           Some (updated now course ubody)))"
proof (intro conjI impI)
  assume s: "role caller = STUDENT"
  show "route_createCourse newId now (Token caller) body st =
        (sendError 403 ''Instructor or admin access required'', st)"
    and "route_updateCourse now (Token caller) ident ubody st =
        (sendError 403 ''Instructor or admin access required'', st)"
    by (simp_all add: route_createCourse_def route_updateCourse_def authenticate_def
        requireInstructorOrAdmin_student[OF s])
next
  assume r: "role caller = INSTRUCTOR \<or> role caller = ADMIN" and "\<not> createCourseSchema body"
  then show "route_createCourse newId now (Token caller) body st = (sendError 400 ''Validation failed'', st)"
    by (simp add: route_createCourse_def authenticate_def validation_failed_def
        requireInstructorOrAdmin_passes[OF r])
next
  assume r: "role caller = INSTRUCTOR \<or> role caller = ADMIN"
    and "createCourseSchema body \<and> UserModel_findById (userId caller) (users st) = None"
  then show "route_createCourse newId now (Token caller) body st = (sendError 404 ''Instructor not found'', st)"
    by (simp add: route_createCourse_def authenticate_def createCourse_def sendNotFound_def
        requireInstructorOrAdmin_passes[OF r])
next
  assume r: "role caller = INSTRUCTOR \<or> role caller = ADMIN"
    and h: "createCourseSchema body \<and> UserModel_findById (userId caller) (users st) = Some instructor"
  from h createCourse_stores[of caller st instructor newId now body]
  show "route_createCourse newId now (Token caller) body st =
           (sendSuccess (created newId now caller instructor body) ''Course created successfully'',
            st\<lparr> courses := Map_set newId (created newId now caller instructor body) (courses st) \<rparr>)"
    by (simp add: route_createCourse_def authenticate_def created_def
        requireInstructorOrAdmin_passes[OF r])
  show "CourseModel_findById newId
           (Map_set newId (created newId now caller instructor body) (courses st)) =
           Some (created newId now caller instructor body)"
    by (simp add: CourseModel_findById_def Map_get_Map_set)
next
  assume h: "CourseModel_findById ident (courses st) = Some course \<and> idParamSchema ident \<and>
    updateCourseSchema ubody"
    and r: "role caller = INSTRUCTOR \<and> userId caller \<noteq> course_instructorId course"
  from r have p: "role caller = INSTRUCTOR \<or> role caller = ADMIN" by auto
  from r have "course_instructorId course \<noteq> userId caller" "role caller \<noteq> ADMIN" by auto
  from updateCourse_refuses[OF _ this, of ident st now ubody] h
  show "route_updateCourse now (Token caller) ident ubody st =
           (sendError 403 ''You can only update your own courses'', st)"
    by (simp add: route_updateCourse_def authenticate_def requireInstructorOrAdmin_passes[OF p])
next
  assume h: "CourseModel_findById ident (courses st) = Some course \<and> idParamSchema ident \<and>
    updateCourseSchema ubody"
    and r: "(role caller = INSTRUCTOR \<and> userId caller = course_instructorId course) \<or> role caller = ADMIN"
  from r have o: "course_instructorId course = userId caller \<or> role caller = ADMIN" by auto
  from r have p: "role caller = INSTRUCTOR \<or> role caller = ADMIN" by auto
  from h updateCourse_stores[OF _ o, of ident st now ubody]
  show "route_updateCourse now (Token caller) ident ubody st =
           (sendSuccess (updated now course ubody) ''Course updated successfully'',
            st\<lparr> courses := Map_set ident (updated now course ubody) (courses st) \<rparr>)"
    by (simp add: route_updateCourse_def authenticate_def updated_def
        requireInstructorOrAdmin_passes[OF p])
  show "CourseModel_findById ident (Map_set ident (updated now course ubody) (courses st)) =
           Some (updated now course ubody)"
    by (simp add: CourseModel_findById_def Map_get_Map_set)
qed

theorem course_authorization_witness:
  "role student1 = STUDENT \<and>
   route_createCourse ''course_9'' clock0 (Token student1) example_create_body state0 =
     (sendError 403 ''Instructor or admin access required'', state0) \<and>
   role instructor1 = INSTRUCTOR \<and> role admin1 = ADMIN \<and> role instructor2 = INSTRUCTOR \<and>
   createCourseSchema example_create_body \<and>
   UserModel_findById (userId instructor1) (users state0) =
     Some (mk_user ''user_2'' ''instructor@skillforge.com'' INSTRUCTOR) \<and>
   success (fst (route_createCourse ''course_9'' clock0 (Token instructor1) example_create_body state0)) \<and>
   map_option (\<lambda>c. (course_instructorId c, course_title c, course_isPublished c))
     (CourseModel_findById ''course_9''
        (courses (snd (route_createCourse ''course_9'' clock0 (Token instructor1) example_create_body state0)))) =
     Some (''user_2'', ''Intro to HOL'', False) \<and>
   \<not> createCourseSchema unsafe_price_body \<and>
   route_createCourse ''course_9'' clock0 (Token instructor1) unsafe_price_body state0 =
     (sendError 400 ''Validation failed'', state0) \<and>
   UserModel_findById (userId instructor3) (users state0) = None \<and>
   route_createCourse ''course_9'' clock0 (Token instructor3) example_create_body state0 =
     (sendError 404 ''Instructor not found'', state0) \<and>
   CourseModel_findById ''course_1'' (courses state0) = Some (mk_course ''course_1'' ''user_2'' 0 True) \<and>
   idParamSchema ''course_1'' \<and> updateCourseSchema example_update_body \<and>
   userId instructor2 \<noteq> course_instructorId (mk_course ''course_1'' ''user_2'' 0 True) \<and>
   route_updateCourse clock0 (Token instructor2) ''course_1'' example_update_body state0 =
     (sendError 403 ''You can only update your own courses'', state0) \<and>
   userId instructor1 = course_instructorId (mk_course ''course_1'' ''user_2'' 0 True) \<and>
   success (fst (route_updateCourse clock0 (Token instructor1) ''course_1'' example_update_body state0)) \<and>
   map_option (\<lambda>c. (course_title c, course_price c, course_description c, course_updatedAt c))
     (CourseModel_findById ''course_1''
        (courses (snd (route_updateCourse clock0 (Token instructor1) ''course_1'' example_update_body state0)))) =
     Some (''A new title'', 5, ''An introduction'', 2000) \<and>
   success (fst (route_updateCourse clock0 (Token admin1) ''course_1'' example_update_body state0))"
proof -
  have roles: "role student1 = STUDENT" "role instructor1 = INSTRUCTOR" "role admin1 = ADMIN"
    "role instructor2 = INSTRUCTOR" "role instructor3 = INSTRUCTOR"
    by (simp_all add: student1_def instructor1_def admin1_def instructor2_def instructor3_def)
  have valid: "createCourseSchema example_create_body" "\<not> createCourseSchema unsafe_price_body"
    "idParamSchema ''course_1''" "updateCourseSchema example_update_body"
    by code_simp+
  have known: "UserModel_findById (userId instructor1) (users state0) =
      Some (mk_user ''user_2'' ''instructor@skillforge.com'' INSTRUCTOR)"
    "UserModel_findById (userId instructor3) (users state0) = None"
    "CourseModel_findById ''course_1'' (courses state0) = Some (mk_course ''course_1'' ''user_2'' 0 True)"
    by (simp_all add: UserModel_findById_def CourseModel_findById_def Map_get_def state0_def
        instructor1_def instructor3_def)
  have owner: "userId instructor2 \<noteq> course_instructorId (mk_course ''course_1'' ''user_2'' 0 True)"
    "userId instructor1 = course_instructorId (mk_course ''course_1'' ''user_2'' 0 True)"
    by (simp_all add: instructor1_def instructor2_def mk_course_def)
  note at = course_authorization[where newId = "''course_9''" and now = clock0 and st = state0
      and ident = "''course_1''" and course = "mk_course ''course_1'' ''user_2'' 0 True"
      and ubody = example_update_body]
  from at[where caller = student1 and body = example_create_body] roles
  have a: "route_createCourse ''course_9'' clock0 (Token student1) example_create_body state0 =
     (sendError 403 ''Instructor or admin access required'', state0)"
    by blast
  from at[where caller = instructor1 and body = example_create_body
      and instructor = "mk_user ''user_2'' ''instructor@skillforge.com'' INSTRUCTOR"]
    roles valid known
  have b: "success (fst (route_createCourse ''course_9'' clock0 (Token instructor1) example_create_body state0))"
    "map_option (\<lambda>c. (course_instructorId c, course_title c, course_isPublished c))
     (CourseModel_findById ''course_9''
        (courses (snd (route_createCourse ''course_9'' clock0 (Token instructor1) example_create_body state0)))) =
     Some (''user_2'', ''Intro to HOL'', False)"
    by (simp_all add: instructor1_def example_create_body_def)
  from at[where caller = instructor1 and body = unsafe_price_body] roles valid
  have c: "route_createCourse ''course_9'' clock0 (Token instructor1) unsafe_price_body state0 =
     (sendError 400 ''Validation failed'', state0)"
    by blast
  from at[where caller = instructor3 and body = example_create_body] roles valid known
  have d: "route_createCourse ''course_9'' clock0 (Token instructor3) example_create_body state0 =
     (sendError 404 ''Instructor not found'', state0)"
    by blast
  from at[where caller = instructor2 and body = example_create_body] roles valid known owner
  have e: "route_updateCourse clock0 (Token instructor2) ''course_1'' example_update_body state0 =
     (sendError 403 ''You can only update your own courses'', state0)"
    by blast
  from at[where caller = instructor1 and body = example_create_body] roles valid known owner
  have f: "success (fst (route_updateCourse clock0 (Token instructor1) ''course_1'' example_update_body state0))"
    "map_option (\<lambda>c. (course_title c, course_price c, course_description c, course_updatedAt c))
     (CourseModel_findById ''course_1''
        (courses (snd (route_updateCourse clock0 (Token instructor1) ''course_1'' example_update_body state0)))) =
     Some (''A new title'', 5, ''An introduction'', 2000)"
    by (simp_all add: example_update_body_def spread_def mk_course_def clock0_def)
  from at[where caller = admin1 and body = example_create_body] roles valid known
  have g: "success (fst (route_updateCourse clock0 (Token admin1) ''course_1'' example_update_body state0))"
    by simp
  from roles valid known owner a b c d e f g show ?thesis by blast
qed

text \<open>
  An Instructor for whom creation does not succeed: the token of \<open>instructor3\<close> is valid
  and the body passes validation, but the account is not in the user store, and the
  answer is 404; and \<open>instructor1\<close>, whose account exists, is answered 400 for a body with
  a price of \<open>10^20\<close>.
\<close>

theorem deleted_instructor_cannot_create:
  "role instructor3 = INSTRUCTOR \<and>
   createCourseSchema example_create_body \<and>
   UserModel_findById (userId instructor3) (users state0) = None \<and>
   route_createCourse ''course_9'' clock0 (Token instructor3) example_create_body state0 =
     (sendError 404 ''Instructor not found'', state0) \<and>
   role instructor1 = INSTRUCTOR \<and>
   UserModel_findById (userId instructor1) (users state0) \<noteq> None \<and>
   route_createCourse ''course_9'' clock0 (Token instructor1) unsafe_price_body state0 =
     (sendError 400 ''Validation failed'', state0)"
  by (intro conjI) code_simp+

section \<open>Signup and the uniqueness of emails\<close>

lemma Map_set_filter_count:
  assumes "filter (\<lambda>x. P (snd x)) m = []" and "P v"
  shows "length (filter (\<lambda>x. P (snd x)) (Map_set k v m)) = 1"
  using assms by (induction m) (auto split: if_splits)

lemma emails_Map_set_count:
  assumes "filter (\<lambda>u. user_email u = e) (Map_values m) = []" and "user_email v = e"
  shows "length (filter (\<lambda>u. user_email u = e) (Map_values (Map_set k v m))) = 1"
proof -
  from assms(1) have "filter (\<lambda>x. user_email (snd x) = e) m = []"
    by (simp add: Map_values_def filter_map comp_def)
  from Map_set_filter_count[of "\<lambda>u. user_email u = e", OF this assms(2), of k]
  show ?thesis by (simp add: Map_values_def filter_map comp_def)
qed

lemma emails_Map_set_set:
  "set (map user_email (Map_values (Map_set k v m))) \<subseteq> insert (user_email v) (set (map user_email (Map_values m)))"
  by (induction m) (auto simp: Map_values_def)

lemma emails_Map_set_distinct:
  assumes "distinct (map user_email (Map_values m))"
      and "user_email v \<notin> set (map user_email (Map_values m))"
  shows "distinct (map user_email (Map_values (Map_set k v m)))"
  using assms
proof (induction m)
  case Nil
  then show ?case by (simp add: Map_values_def)
next
  case (Cons a m)
  then have d: "distinct (map user_email (Map_values m))"
    and n: "user_email v \<notin> set (map user_email (Map_values m))"
    and a: "user_email (snd a) \<notin> set (map user_email (Map_values m))"
    and va: "user_email v \<noteq> user_email (snd a)"
    by (auto simp: Map_values_def)
  show ?case
  proof (cases "fst a = k")
    case True
    with d n show ?thesis by (simp add: Map_values_def)
  next
    case False
    from emails_Map_set_set[of k v m] a va
    have "user_email (snd a) \<notin> set (map user_email (Map_values (Map_set k v m)))"
      by auto
    with False Cons.IH[OF d n] show ?thesis by (simp add: Map_values_def)
  qed
qed

lemma findByEmail_None:
  "UserModel_findByEmail e m = None \<longleftrightarrow> e \<notin> set (map user_email (Map_values m))"
  by (auto simp: UserModel_findByEmail_def find_None_iff)

lemma UserModel_create_result:
  "snd (UserModel_create newId now userData m) = Map_set newId (fst (UserModel_create newId now userData m)) m"
  "user_email (fst (UserModel_create newId now userData m)) = ud_email userData"
  by (simp_all add: UserModel_create_def Let_def)

lemma signup_users_cases:
  "users (snd (signup now env body st)) = users st \<or>
   (\<exists>user. UserModel_findByEmail (signup_email body) (users st) = None \<and>
      user_email user = signup_email body \<and>
      users (snd (signup now env body st)) = Map_set (env_newId env) user (users st))"
proof (cases "UserModel_findByEmail (signup_email body) (users st) = None \<and> env_hashedPassword env \<noteq> None")
  case False
  then show ?thesis by (auto simp: signup_def split: option.splits)
next
  case True
  then obtain hashed where h: "env_hashedPassword env = Some hashed" by auto
  let ?c = "UserModel_create (env_newId env) now (signup_userData body hashed) (users st)"
  from True h have "users (snd (signup now env body st)) = snd ?c"
    by (auto simp: signup_def Let_def split: option.splits prod.splits)
  moreover have "user_email (fst ?c) = signup_email body"
    by (simp add: UserModel_create_result signup_userData_def)
  ultimately show ?thesis using True UserModel_create_result(1)[of "env_newId env" now "signup_userData body hashed" "users st"]
    by auto
qed

lemma signup_success:
  assumes "signup now env body st = (r, st')" and "success r"
  shows "\<exists>user.
           UserModel_findByEmail (signup_email body) (users st) = None \<and>
           user_email user = signup_email body \<and>
           users st' = Map_set (env_newId env) user (users st)"
proof -
  from assms have "env_hashedPassword env \<noteq> None \<and> UserModel_findByEmail (signup_email body) (users st) = None"
    by (auto simp: signup_def split: option.splits)
  then obtain hashed where h: "env_hashedPassword env = Some hashed"
    and n: "UserModel_findByEmail (signup_email body) (users st) = None" by auto
  let ?c = "UserModel_create (env_newId env) now (signup_userData body hashed) (users st)"
  from assms(1) h n have "users st' = snd ?c"
    by (auto simp: signup_def Let_def split: option.splits prod.splits)
  moreover have "user_email (fst ?c) = signup_email body"
    by (simp add: UserModel_create_result signup_userData_def)
  ultimately show ?thesis
    using n UserModel_create_result(1)[of "env_newId env" now "signup_userData body hashed" "users st"]
    by auto
qed

lemma signup_conflict:
  assumes "UserModel_findByEmail (signup_email body) (users st) \<noteq> None"
  shows "signup now env body st = (sendError 409 ''User with this email already exists'', st)"
  using assms by (auto simp: signup_def)

lemma signup_keeps_emails_distinct:
  assumes "distinct (map user_email (Map_values (users st)))"
  shows "distinct (map user_email (Map_values (users (snd (signup now env body st)))))"
  using signup_users_cases[of now env body st]
proof (elim disjE exE conjE)
  assume "users (snd (signup now env body st)) = users st"
  with assms show ?thesis by simp
next
  fix user
  assume none: "UserModel_findByEmail (signup_email body) (users st) = None"
    and u: "user_email user = signup_email body"
    and s: "users (snd (signup now env body st)) = Map_set (env_newId env) user (users st)"
  from none have "signup_email body \<notin> set (map user_email (Map_values (users st)))"
    by (simp add: findByEmail_None)
  with emails_Map_set_distinct[OF assms, of user "env_newId env"] u s
  show ?thesis by simp
qed

text \<open>
  C3.  After a successful signup the user store holds exactly one record with the
  email of the request; any later signup with that email (whatever its other fields,
  the clock and the generated id) answers 409 and leaves the state as it was; and if
  the emails of the store were pairwise different before the signup, they are so after
  it.  With a generated id that is not yet a key of the store, the store after the
  signup is the store before it with the one new record appended.
\<close>

theorem signup_email_unique:
  assumes "signup now env body st = (r, st')" and "success r"
      and "signup_email body2 = signup_email body"
  shows "length (filter (\<lambda>u. user_email u = signup_email body) (Map_values (users st'))) = 1 \<and>
         signup now2 env2 body2 st' = (sendError 409 ''User with this email already exists'', st') \<and>
         (distinct (map user_email (Map_values (users st))) \<longrightarrow>
            distinct (map user_email (Map_values (users st')))) \<and>
         (\<not> Map_has (env_newId env) (users st) \<longrightarrow>
            (\<exists>user. user_email user = signup_email body \<and>
               users st' = users st @ [(env_newId env, user)]))"
proof -
  from signup_success[OF assms(1,2)] obtain user where
    none: "UserModel_findByEmail (signup_email body) (users st) = None" and
    e: "user_email user = signup_email body" and
    st': "users st' = Map_set (env_newId env) user (users st)"
    by blast
  from none have "filter (\<lambda>u. user_email u = signup_email body) (Map_values (users st)) = []"
    by (simp add: UserModel_findByEmail_def find_None_filter)
  from emails_Map_set_count[OF this e]
  have one: "length (filter (\<lambda>u. user_email u = signup_email body) (Map_values (users st'))) = 1"
    by (simp add: st')
  then have "filter (\<lambda>u. user_email u = signup_email body2) (Map_values (users st')) \<noteq> []"
    using assms(3) by auto
  then have "UserModel_findByEmail (signup_email body2) (users st') \<noteq> None"
    by (simp only: UserModel_findByEmail_def find_None_filter not_False_eq_True)
  from signup_conflict[OF this]
  have two: "signup now2 env2 body2 st' = (sendError 409 ''User with this email already exists'', st')" .
  from signup_keeps_emails_distinct[of st now env body] assms(1)
  have three: "distinct (map user_email (Map_values (users st))) \<longrightarrow>
            distinct (map user_email (Map_values (users st')))"
    by simp
  from e st' have "\<not> Map_has (env_newId env) (users st) \<longrightarrow>
            (\<exists>user. user_email user = signup_email body \<and>
               users st' = users st @ [(env_newId env, user)])"
    by (auto simp: Map_set_fresh)
  with one two three show ?thesis by blast
qed

theorem signup_email_unique_witness:
  "\<exists>r st'. signup clock0 example_signup_env example_signup state0 = (r, st') \<and> success r \<and>
      signup_email example_signup = signup_email example_signup \<and>
      length (filter (\<lambda>u. user_email u = signup_email example_signup) (Map_values (users st'))) = 1 \<and>
      signup clock0 example_signup_env example_signup st' =
        (sendError 409 ''User with this email already exists'', st') \<and>
      distinct (map user_email (Map_values (users state0))) \<and>
      distinct (map user_email (Map_values (users st'))) \<and>
      \<not> Map_has (env_newId example_signup_env) (users state0) \<and>
      (\<exists>user. user_email user = ''a@x.com'' \<and> users st' = users state0 @ [(''user_9'', user)])"
proof -
  obtain r st' where h: "signup clock0 example_signup_env example_signup state0 = (r, st')"
    by (cases "signup clock0 example_signup_env example_signup state0")
  have "success (fst (signup clock0 example_signup_env example_signup state0))"
    by code_simp
  with h have s: "success r" by simp
  have d: "distinct (map user_email (Map_values (users state0)))"
    by (simp add: eval_defs)
  have f: "\<not> Map_has (env_newId example_signup_env) (users state0)"
    by (simp add: Map_has_def example_signup_env_def state0_def)
  have n: "env_newId example_signup_env = ''user_9''" "signup_email example_signup = ''a@x.com''"
    by (simp_all add: example_signup_env_def example_signup_def)
  from signup_email_unique[OF h s refl, of clock0 example_signup_env] h s d f
  show ?thesis unfolding n by blast
qed

section \<open>Update and read back\<close>

text \<open>
  C6 (as amended).  After \<open>update\<close> of a stored course with a partial field set,
  \<open>findById\<close> returns the record \<open>update\<close> returned: every field other than
  \<open>updatedAt\<close> has the value the update carries for it, or its old value when the
  update omits it, and \<open>updatedAt\<close> is the clock reading of the update.  It is greater
  than the previous update timestamp exactly when the clock has moved past that
  timestamp.
\<close>

theorem update_findById_roundtrip:
  assumes "CourseModel_findById ident cs = Some course"
  shows "\<exists>c'. fst (CourseModel_update now ident updates cs) = Some c' \<and>
            CourseModel_findById ident (snd (CourseModel_update now ident updates cs)) = Some c' \<and>
            course_id c' = spread (course_id course) (pc_id updates) \<and>
            course_title c' = spread (course_title course) (pc_title updates) \<and>
            course_description c' = spread (course_description course) (pc_description updates) \<and>
            course_shortDescription c' = spread (course_shortDescription course) (pc_shortDescription updates) \<and>
            course_instructorId c' = spread (course_instructorId course) (pc_instructorId updates) \<and>
            course_instructorName c' = spread (course_instructorName course) (pc_instructorName updates) \<and>
            course_category c' = spread (course_category course) (pc_category updates) \<and>
            course_subcategory c' = spread (course_subcategory course) (pc_subcategory updates) \<and>
            course_level c' = spread (course_level course) (pc_level updates) \<and>
            course_price c' = spread (course_price course) (pc_price updates) \<and>
            course_currency c' = spread (course_currency course) (pc_currency updates) \<and>
            course_thumbnail c' = spread (course_thumbnail course) (pc_thumbnail updates) \<and>
            course_previewVideo c' = spread (course_previewVideo course) (pc_previewVideo updates) \<and>
            course_duration c' = spread (course_duration course) (pc_duration updates) \<and>
            course_modules c' = spread (course_modules course) (pc_modules updates) \<and>
            course_requirements c' = spread (course_requirements course) (pc_requirements updates) \<and>
            course_learningOutcomes c' = spread (course_learningOutcomes course) (pc_learningOutcomes updates) \<and>
            course_tags c' = spread (course_tags course) (pc_tags updates) \<and>
            course_rating c' = spread (course_rating course) (pc_rating updates) \<and>
            course_reviewCount c' = spread (course_reviewCount course) (pc_reviewCount updates) \<and>
            course_enrollmentCount c' = spread (course_enrollmentCount course) (pc_enrollmentCount updates) \<and>
            course_isPublished c' = spread (course_isPublished course) (pc_isPublished updates) \<and>
            course_createdAt c' = spread (course_createdAt course) (pc_createdAt updates) \<and>
            course_updatedAt c' = now 0 \<and>
            (course_updatedAt course < course_updatedAt c' \<longleftrightarrow> course_updatedAt course < now 0)"
  using assms
  by (simp add: CourseModel_update_def CourseModel_findById_def Map_get_Map_set Let_def
      spread_Course_def)

theorem update_findById_roundtrip_witness:
  "CourseModel_findById ''course_1'' (courses state0) = Some (mk_course ''course_1'' ''user_2'' 0 True) \<and>
   (\<exists>c'. CourseModel_findById ''course_1''
            (snd (CourseModel_update clock0 ''course_1'' (updates_of_request example_update_body)
               (courses state0))) = Some c' \<and>
      course_title c' = ''A new title'' \<and> course_price c' = 5 \<and>
      course_description c' = ''An introduction'' \<and> course_isPublished c' \<and>
      course_updatedAt c' = 2000 \<and>
      course_updatedAt (mk_course ''course_1'' ''user_2'' 0 True) < course_updatedAt c')"
proof -
  have h: "CourseModel_findById ''course_1'' (courses state0) = Some (mk_course ''course_1'' ''user_2'' 0 True)"
    by (simp add: eval_defs)
  from update_findById_roundtrip[OF h, of clock0 "updates_of_request example_update_body"]
  obtain c' where
    "CourseModel_findById ''course_1''
            (snd (CourseModel_update clock0 ''course_1'' (updates_of_request example_update_body)
               (courses state0))) = Some c'"
    "course_title c' = spread (course_title (mk_course ''course_1'' ''user_2'' 0 True))
        (pc_title (updates_of_request example_update_body))"
    "course_price c' = spread (course_price (mk_course ''course_1'' ''user_2'' 0 True))
        (pc_price (updates_of_request example_update_body))"
    "course_description c' = spread (course_description (mk_course ''course_1'' ''user_2'' 0 True))
        (pc_description (updates_of_request example_update_body))"
    "course_isPublished c' = spread (course_isPublished (mk_course ''course_1'' ''user_2'' 0 True))
        (pc_isPublished (updates_of_request example_update_body))"
    "course_updatedAt c' = clock0 0"
    by blast
  then show ?thesis using h
    by (simp add: updates_of_request_def no_updates_def example_update_body_def spread_def
        mk_course_def clock0_def)
qed

text \<open>
  An update within the millisecond of the previous write: \<open>course_1\<close> of \<open>state0\<close> was
  last written at 1000 and is updated while the clock still reads 1000.  The title is
  merged, the update timestamp is 1000 as before.
\<close>

theorem update_same_millisecond:
  "map_option course_updatedAt (CourseModel_findById ''course_1'' (courses state0)) = Some 1000 \<and>
   map_option (\<lambda>c. (course_title c, course_updatedAt c))
     (CourseModel_findById ''course_1''
        (snd (CourseModel_update (\<lambda>k. 1000) ''course_1''
                (updates_of_request example_update_body) (courses state0)))) =
     Some (''A new title'', 1000)"
  by (intro conjI) code_simp+

section \<open>Payment operations\<close>

lemma Map_set_Map_set: "Map_set k v (Map_set k w m) = Map_set k v m"
  by (induction m) auto

lemma skeleton_Map_set:
  assumes "Map_get k m = Some p" and "payment_id p' = payment_id p"
      and "payment_stripePaymentIntentId p' = payment_stripePaymentIntentId p"
  shows "skeleton (Map_set k p' m) = skeleton m"
  using assms by (induction m) (auto simp: skeleton_def Map_get_def)

lemma skeleton_update: "skeleton (snd (PaymentModel_update now k s m)) = skeleton m"
  by (auto simp: PaymentModel_update_def Let_def skeleton_Map_set split: option.splits)

lemma findByStripeId_skeleton:
  assumes "skeleton m = skeleton m'"
  shows "map_option payment_id (PaymentModel_findByStripeId sid m) =
         map_option payment_id (PaymentModel_findByStripeId sid m')"
  using assms
proof (induction m arbitrary: m')
  case Nil
  then show ?case by (simp add: skeleton_def PaymentModel_findByStripeId_def Map_values_def)
next
  case (Cons e m)
  then obtain e' m'' where m': "m' = e' # m''" by (cases m') (auto simp: skeleton_def)
  with Cons.prems have "skeleton m = skeleton m''"
    and "payment_id (snd e) = payment_id (snd e')"
    and "payment_stripePaymentIntentId (snd e) = payment_stripePaymentIntentId (snd e')"
    by (auto simp: skeleton_def)
  with Cons.IH[of m''] m' show ?case
    by (auto simp: PaymentModel_findByStripeId_def Map_values_def)
qed

lemma update_update:
  "snd (PaymentModel_update now2 k (Some s) (snd (PaymentModel_update now1 k (Some s) m))) =
   snd (PaymentModel_update now2 k (Some s) m)"
  by (auto simp: PaymentModel_update_def Let_def Map_get_Map_set Map_set_Map_set spread_def
      split: option.splits)

lemma forget_Map_set:
  assumes "p\<lparr> payment_updatedAt := 0 \<rparr> = q\<lparr> payment_updatedAt := 0 \<rparr>"
  shows "forget_updatedAt (Map_set k p m) = forget_updatedAt (Map_set k q m)"
  using assms by (induction m) (auto simp: forget_updatedAt_def)

lemma forget_update:
  "forget_updatedAt (snd (PaymentModel_update now2 k s m)) =
   forget_updatedAt (snd (PaymentModel_update now1 k s m))"
  by (auto simp: PaymentModel_update_def Let_def intro!: forget_Map_set split: option.splits)

lemma webhook_set_status_twice:
  "webhook_set_status now2 sid s (webhook_set_status now1 sid s st) = webhook_set_status now2 sid s st"
proof (cases "PaymentModel_findByStripeId sid (payments st)")
  case None
  then show ?thesis by (simp add: webhook_set_status_def)
next
  case (Some p)
  let ?m1 = "snd (PaymentModel_update now1 (payment_id p) (Some s) (payments st))"
  from Some have st1: "webhook_set_status now1 sid s st = st\<lparr> payments := ?m1 \<rparr>"
    by (simp add: webhook_set_status_def)
  from findByStripeId_skeleton[OF skeleton_update, of sid now1 "payment_id p" "Some s" "payments st"] Some
  obtain p1 where p1: "PaymentModel_findByStripeId sid ?m1 = Some p1" "payment_id p1 = payment_id p"
    by auto
  then have "webhook_set_status now2 sid s (st\<lparr> payments := ?m1 \<rparr>) =
      st\<lparr> payments := snd (PaymentModel_update now2 (payment_id p) (Some s) ?m1) \<rparr>"
    by (simp add: webhook_set_status_def)
  with st1 Some show ?thesis
    by (simp add: update_update webhook_set_status_def)
qed

lemma webhook_set_status_frame:
  "users (webhook_set_status now sid s st) = users st"
  "courses (webhook_set_status now sid s st) = courses st"
  by (simp_all add: webhook_set_status_def split: option.splits)

lemma webhook_set_status_forget:
  "forget_updatedAt (payments (webhook_set_status now2 sid s st)) =
   forget_updatedAt (payments (webhook_set_status now1 sid s st))"
  by (auto simp: webhook_set_status_def forget_update split: option.splits)

text \<open>
  The handler on a constructed event: a second run with the same event answers as the
  first and leaves the state that a single run at the later time leaves, so the two
  payment stores differ in \<open>updatedAt\<close> at most.
\<close>

lemma handleWebhook_twice:
  "fst (handleWebhook now2 ev (snd (handleWebhook now1 ev st))) = fst (handleWebhook now1 ev st) \<and>
   snd (handleWebhook now2 ev (snd (handleWebhook now1 ev st))) = snd (handleWebhook now2 ev st) \<and>
   forget_updatedAt (payments (snd (handleWebhook now2 ev (snd (handleWebhook now1 ev st))))) =
     forget_updatedAt (payments (snd (handleWebhook now1 ev st))) \<and>
   users (snd (handleWebhook now2 ev (snd (handleWebhook now1 ev st)))) = users st \<and>
   courses (snd (handleWebhook now2 ev (snd (handleWebhook now1 ev st)))) = courses st"
proof (cases ev)
  case None
  then show ?thesis by (simp add: handleWebhook_def)
next
  case (Some event)
  then show ?thesis
    using webhook_set_status_forget[of now2 _ _ st now1]
    by (simp add: handleWebhook_def webhook_set_status_twice webhook_set_status_frame)
qed

text \<open>
  C7.  No webhook delivery is processed, so none is processed twice without error.  The
  route passes the body the JSON parser built, not the raw text, to \<open>constructEvent\<close>,
  which throws for it: every delivery is answered 400 and writes nothing, whatever the
  clock, the configuration, the signature check and the state, and the replay of a
  delivery is answered 400 as well.  In \<open>state0\<close> a delivery of \<open>payment_intent.succeeded\<close> for the pending
  \<open>payment_2\<close>, signed by Stripe, and its replay leave \<open>payment_2\<close> pending, while
  \<open>constructEvent\<close> on the raw text of the same delivery yields the event, which the
  handler answers with \<open>received\<close> and the status \<open>SUCCEEDED\<close>.
\<close>

theorem webhook_delivery_refused:
  "route_handleWebhook now configured verify text signature st = (verification_failed, st) \<and>
   route_handleWebhook now' configured verify text signature
     (snd (route_handleWebhook now configured verify text signature st)) = (verification_failed, st) \<and>
   webhook_statusCode verification_failed = 400 \<and>
   route_handleWebhook clock0 True stripe_signed text signature state0 = (verification_failed, state0) \<and>
   status_of ''payment_2''
     (snd (route_handleWebhook clock1 True stripe_signed text signature
        (snd (route_handleWebhook clock0 True stripe_signed text signature state0)))) = Some PENDING \<and>
   constructEvent stripe_signed (RawBody text) signature = Some (succeeded_event ''pi_2'') \<and>
   fst (handleWebhook clock0 (constructEvent stripe_signed (RawBody text) signature) state0) = received \<and>
   status_of ''payment_2''
     (snd (handleWebhook clock0 (constructEvent stripe_signed (RawBody text) signature) state0)) =
     Some SUCCEEDED"
proof -
  have r: "route_handleWebhook n c v t s x = (verification_failed, x)" for n c v t s x
    by (simp add: route_handleWebhook_def stripeService_handleWebhook_def express_json_def
        constructEvent_def handleWebhook_def)
  have e: "constructEvent stripe_signed (RawBody text) signature = Some (succeeded_event ''pi_2'')"
    by (simp add: constructEvent_def stripe_signed_def)
  have p: "status_of ''payment_2'' state0 = Some PENDING"
    by code_simp
  have h: "fst (handleWebhook clock0 (Some (succeeded_event ''pi_2'')) state0) = received"
    "status_of ''payment_2'' (snd (handleWebhook clock0 (Some (succeeded_event ''pi_2'')) state0)) =
       Some SUCCEEDED"
    by code_simp+
  from p h show ?thesis by (simp add: r e)
qed

lemma status_of_update:
  "status_of k (st\<lparr> payments := snd (PaymentModel_update now key (Some s) (payments st)) \<rparr>) =
     (if key = k \<and> status_of k st \<noteq> None then Some s else status_of k st)"
  by (auto simp: status_of_def PaymentModel_findById_def PaymentModel_update_def Let_def
      Map_get_Map_set spread_def split: option.splits)

lemma payment_step_skeleton: "skeleton (payments (payment_step timed_op st)) = skeleton (payments st)"
proof (cases timed_op)
  case (Pair now op)
  show ?thesis
  proof (cases op)
    case (Confirm answer req_user pid)
    with Pair show ?thesis
      by (auto simp: confirmPayment_def Let_def case_prod_beta skeleton_update sendNotFound_def
          split: option.splits)
  next
    case (Refund answer req_user pid)
    with Pair show ?thesis
      by (auto simp: refundPayment_def Let_def case_prod_beta skeleton_update sendNotFound_def sendBadRequest_def
          split: option.splits)
  next
    case (Webhook ev)
    with Pair show ?thesis
      by (auto simp: handleWebhook_def webhook_set_status_def skeleton_update split: option.splits)
  qed
qed

lemma op_target_skeleton:
  assumes "skeleton (payments st) = skeleton (payments st')"
  shows "op_target op st = op_target op st'"
proof (cases op)
  case (Webhook ev)
  then show ?thesis using findByStripeId_skeleton[OF assms] by (cases ev) auto
qed (use findByStripeId_skeleton[OF assms] in auto)

lemma payment_step_settled:
  assumes "settled (status_of k st)"
      and "\<not> reports_regress op \<or> op_target op st \<noteq> Some k"
  shows "settled (status_of k (payment_step (now, op) st))"
proof (cases op)
  case (Confirm answer req_user pid)
  show ?thesis
  proof (cases "stripeService_confirmPayment answer")
    case None
    with Confirm assms(1) show ?thesis
      by (auto simp: confirmPayment_def sendNotFound_def split: option.splits)
  next
    case (Some s)
    with Confirm assms show ?thesis
      by (auto simp: confirmPayment_def sendNotFound_def Let_def case_prod_beta status_of_update settled_def
          split: option.splits)
  qed
next
  case (Refund answer req_user pid)
  with assms(1) show ?thesis
    by (auto simp: refundPayment_def sendNotFound_def sendBadRequest_def Let_def case_prod_beta status_of_update
        settled_def split: option.splits)
next
  case (Webhook ev)
  show ?thesis
  proof (cases ev)
    case None
    with Webhook assms(1) show ?thesis by (simp add: handleWebhook_def)
  next
    case (Some event)
    with Webhook assms show ?thesis
      by (auto simp: handleWebhook_def webhook_set_status_def status_of_update settled_def
          split: option.splits)
  qed
qed

lemma payment_steps_settled:
  assumes "settled (status_of k st)"
      and "skeleton (payments st) = skeleton (payments st0)"
      and "list_all (spares k st0) ops"
  shows "settled (status_of k (payment_steps ops st))"
  using assms
proof (induction ops arbitrary: st)
  case Nil
  then show ?case by simp
next
  case (Cons timed_op ops)
  obtain now op where t: "timed_op = (now, op)" by (cases timed_op)
  from Cons.prems(3) t have "\<not> reports_regress op \<or> op_target op st0 \<noteq> Some k"
    by (simp add: spares_def)
  with op_target_skeleton[OF Cons.prems(2), of op]
  have "\<not> reports_regress op \<or> op_target op st \<noteq> Some k" by simp
  from payment_step_settled[OF Cons.prems(1) this, of now]
  have 1: "settled (status_of k (payment_step timed_op st))" by (simp add: t)
  have 2: "skeleton (payments (payment_step timed_op st)) = skeleton (payments st0)"
    using payment_step_skeleton[of timed_op st] Cons.prems(2) by simp
  from Cons.prems(3) have "list_all (spares k st0) ops" by simp
  from Cons.IH[OF 1 2 this] show ?case by simp
qed

text \<open>
  C2 (as amended).  Let a payment have status \<open>SUCCEEDED\<close>, and take any sequence of
  confirm, refund and webhook requests each of which spares it: a request for this
  payment comes with no report of a non-succeeded status from Stripe.  Then the status
  of the payment after the sequence is \<open>SUCCEEDED\<close> or \<open>REFUNDED\<close>: it never becomes
  \<open>PENDING\<close>, \<open>FAILED\<close> or \<open>CANCELED\<close>, and the only change from \<open>SUCCEEDED\<close> is to
  \<open>REFUNDED\<close>.
\<close>

theorem succeeded_stays_settled:
  assumes "status_of ident st = Some SUCCEEDED"
      and "list_all (spares ident st) ops"
  shows "status_of ident (payment_steps ops st) = Some SUCCEEDED \<or>
         status_of ident (payment_steps ops st) = Some REFUNDED"
proof -
  from assms(1) have "settled (status_of ident st)" by (simp add: settled_def)
  from payment_steps_settled[OF this refl assms(2)] show ?thesis by (simp add: settled_def)
qed

theorem succeeded_stays_settled_witness:
  "status_of ''payment_1'' state0 = Some SUCCEEDED \<and>
   list_all (spares ''payment_1'' state0) example_ops \<and>
   list_ex (\<lambda>timed_op. reports_regress (snd timed_op)) example_ops \<and>
   status_of ''payment_1'' (payment_steps example_ops state0) = Some REFUNDED"
proof -
  have h1: "status_of ''payment_1'' state0 = Some SUCCEEDED" by code_simp
  have h2: "list_all (spares ''payment_1'' state0) example_ops" by code_simp
  have h3: "list_ex (\<lambda>timed_op. reports_regress (snd timed_op)) example_ops" by code_simp
  have h4: "status_of ''payment_1'' (payment_steps example_ops state0) \<noteq> Some SUCCEEDED" by code_simp
  from succeeded_stays_settled[OF h1 h2] h1 h2 h3 h4 show ?thesis by blast
qed

text \<open>
  Without that condition the stored status follows Stripe: a \<open>payment_failed\<close> event for
  the succeeded \<open>payment_1\<close> makes it \<open>FAILED\<close>, and a confirm to which Stripe answers
  \<open>processing\<close> or \<open>canceled\<close> makes it \<open>PENDING\<close> or \<open>CANCELED\<close>.
\<close>

theorem succeeded_overwritten:
  "status_of ''payment_1'' state0 = Some SUCCEEDED \<and>
   status_of ''payment_1''
     (payment_steps [(clock0, Webhook (Some (failed_event ''pi_1'')))] state0) = Some FAILED \<and>
   status_of ''payment_1''
     (payment_steps [(clock0, Confirm (Some ''processing'') (Some student1) ''pi_1'')] state0) = Some PENDING \<and>
   status_of ''payment_1''
     (payment_steps [(clock0, Confirm (Some ''canceled'') (Some student1) ''pi_1'')] state0) = Some CANCELED"
  by (intro conjI) code_simp+

end
